theory Spec2Isabelle
  imports Complex_Main "HOL-Library.AList" "HOL-Library.Log_Nat"
begin

section \<open>Python values\<close>

text \<open>
  The program is dynamically typed: what it fetches is whatever JSON the statistics
  service sends. A parsed JSON document is a value of \<open>json\<close>; a Python \<open>dict\<close> is an
  association list in insertion order (its keys are distinct, as a dict's are).
  A Python \<open>float\<close> is a real number or the not-a-number value \<open>NaN\<close>; the infinities
  are outside the model. An exception is a value of \<open>py_error\<close>, returned on the left of
  a sum.
\<close>

datatype pyfloat = Fin real | NaN

datatype json =
    JNull
  | JBool bool
  | JInt int
  | JFloat pyfloat
  | JStr string
  | JArr "json list"
  | JObj "(string \<times> json) list"

datatype py_error =
    KeyError string
  | IndexError
  | TypeError
  | ValueError
  | OverflowError
  | JSONDecodeError
  | RequestException
  | NameError
  | NotModelled

text \<open>\<open>len(x)\<close>: defined on sequences and dicts, a \<open>TypeError\<close> elsewhere.\<close>

fun py_len :: "json \<Rightarrow> py_error + nat" where
  "py_len (JArr xs) = Inr (length xs)"
| "py_len (JObj kvs) = Inr (length kvs)"
| "py_len (JStr s) = Inr (length s)"
| "py_len _ = Inl TypeError"

text \<open>
  \<open>x[1]\<close>: the second element of a list or string, an \<open>IndexError\<close> when there is none;
  a dict parsed from JSON has string keys only, so the integer key 1 is a \<open>KeyError\<close>.
\<close>

fun py_getitem1 :: "json \<Rightarrow> py_error + json" where
  "py_getitem1 (JArr xs) = (if 1 < length xs then Inr (xs ! 1) else Inl IndexError)"
| "py_getitem1 (JStr s) = (if 1 < length s then Inr (JStr [s ! 1]) else Inl IndexError)"
| "py_getitem1 (JObj kvs) = Inl (KeyError ''1'')"
| "py_getitem1 _ = Inl TypeError"

text \<open>\<open>sep.join(xs)\<close> on a list of strings.\<close>

fun str_join :: "string \<Rightarrow> string list \<Rightarrow> string" where
  "str_join sep [] = []"
| "str_join sep [x] = x"
| "str_join sep (x # y # ys) = x @ sep @ str_join sep (y # ys)"

text \<open>\<open>str(n)\<close> of an integer, as an f-string renders it: decimal, a minus sign first.\<close>

definition digit_char :: "nat \<Rightarrow> char" where
  "digit_char d = char_of (48 + d)"

fun str_nat :: "nat \<Rightarrow> string" where
  "str_nat n = (if n < 10 then [digit_char n] else str_nat (n div 10) @ [digit_char (n mod 10)])"

declare str_nat.simps [simp del]

definition str_int :: "int \<Rightarrow> string" where
  "str_int i = (if i < 0 then CHR ''-'' # str_nat (nat (- i)) else str_nat (nat i))"

section \<open>The fetcher\<close>

text \<open>
  \<open>requests.get(url, params=params)\<close> sends one GET request and returns the response, or
  raises when the transport fails. The remote service is a parameter \<open>srv\<close> of the model;
  the world records every request sent and every line printed.
\<close>

datatype http_verb = GET | POST

datatype param = PStr string | PInt int

record request =
  verb :: http_verb
  url :: string
  params :: "(string \<times> param) list"

record response =
  status_code :: int
  body :: "json option"

record world =
  sent :: "request list"
  printed :: "string list"

type_synonym service = "request \<Rightarrow> py_error + response"

definition requests_get :: "service \<Rightarrow> string \<Rightarrow> (string \<times> param) list \<Rightarrow> world
    \<Rightarrow> (py_error + response) \<times> world" where
  "requests_get srv u ps w =
     (let req = \<lparr>verb = GET, url = u, params = ps\<rparr>
      in (srv req, w\<lparr>sent := sent w @ [req]\<rparr>))"

definition print :: "string \<Rightarrow> world \<Rightarrow> world" where
  "print line w = w\<lparr>printed := printed w @ [line]\<rparr>"

text \<open>\<open>response.json()\<close>: the parsed body, or an error when the body is not JSON.\<close>

definition response_json :: "response \<Rightarrow> py_error + json" where
  "response_json r = (case body r of None \<Rightarrow> Inl JSONDecodeError | Some d \<Rightarrow> Inr d)"

definition fetch_data :: "service \<Rightarrow> string list \<Rightarrow> string \<Rightarrow> int \<Rightarrow> int \<Rightarrow> world
    \<Rightarrow> (py_error + json) \<times> world" where
  "fetch_data srv country_codes indicator start_year end_year w =
     (let url = ''http://api.worldbank.org/v2/country/'' @ str_join '';'' country_codes
                  @ ''/indicator/'' @ indicator;
          params = [(''format'', PStr ''json''),
                    (''date'', PStr (str_int start_year @ '':'' @ str_int end_year)),
                    (''per_page'', PInt 5000)]
      in case requests_get srv url params w of
        (Inl e, w1) \<Rightarrow> (Inl e, w1)
      | (Inr resp, w1) \<Rightarrow>
          if status_code resp = 200 then
            (case response_json resp of
               Inl e \<Rightarrow> (Inl e, w1)
             | Inr data \<Rightarrow>
                 (case py_len data of
                    Inl e \<Rightarrow> (Inl e, w1)
                  | Inr n \<Rightarrow>
                      if n > 1 then (py_getitem1 data, w1)
                      else (Inr (JArr []),
                            print (''No data found for indicator '' @ indicator @ ''!'') w1)))
          else (Inr (JArr []),
                print (''Failed to fetch data for indicator '' @ indicator
                         @ ''. HTTP Status code: '' @ str_int (status_code resp)) w1))"

section \<open>Data frames\<close>

text \<open>
  A pandas \<open>DataFrame\<close> is its column labels and its rows, each row holding one cell per
  column, in column order. A cell is a Python value; pandas' missing value is \<open>NaN\<close>, and
  \<open>isna\<close> holds of \<open>None\<close> and of \<open>NaN\<close> alike. The operations below follow the pandas
  documentation for the calls the program makes; the index, dtype inference and the dtype
  checks of pandas are not part of the model.
\<close>

record dataframe =
  columns :: "string list"
  rows :: "json list list"

definition isna :: "json \<Rightarrow> bool" where
  "isna c = (c = JNull \<or> c = JFloat NaN)"

text \<open>The position of the first occurrence of a label.\<close>

fun index_of :: "'a list \<Rightarrow> 'a \<Rightarrow> nat" where
  "index_of [] x = 0"
| "index_of (y # ys) x = (if x = y then 0 else Suc (index_of ys x))"

text \<open>Mapping a conversion that may raise over a list: the first error aborts the whole.\<close>

fun map_result :: "('a \<Rightarrow> 'e + 'b) \<Rightarrow> 'a list \<Rightarrow> 'e + 'b list" where
  "map_result f [] = Inr []"
| "map_result f (x # xs) =
     (case f x of
        Inl e \<Rightarrow> Inl e
      | Inr y \<Rightarrow> (case map_result f xs of Inl e \<Rightarrow> Inl e | Inr ys \<Rightarrow> Inr (y # ys)))"

text \<open>\<open>pd.DataFrame()\<close>: no columns, no rows.\<close>

definition pd_DataFrame_empty :: dataframe where
  "pd_DataFrame_empty = \<lparr>columns = [], rows = []\<rparr>"

text \<open>
  \<open>pd.DataFrame(records)\<close> on a list of dicts: the columns are the keys in order of first
  appearance, a key that a record lacks gives \<open>NaN\<close> in that record's row.
\<close>

definition first_seen :: "'a list \<Rightarrow> 'a list" where
  "first_seen xs = rev (remdups (rev xs))"

definition pd_DataFrame :: "(string \<times> json) list list \<Rightarrow> dataframe" where
  "pd_DataFrame records =
     (let cols = first_seen (concat (map (map fst) records))
      in \<lparr>columns = cols,
          rows = map (\<lambda>r. map (\<lambda>c. case map_of r c of None \<Rightarrow> JFloat NaN | Some v \<Rightarrow> v) cols)
                   records\<rparr>)"

text \<open>\<open>df[[c1, ..., cn]]\<close>: the listed columns in the listed order; a missing label raises.\<close>

definition getitem_cols :: "dataframe \<Rightarrow> string list \<Rightarrow> py_error + dataframe" where
  "getitem_cols df cs =
     (case filter (\<lambda>c. c \<notin> set (columns df)) cs of
        m # _ \<Rightarrow> Inl (KeyError m)
      | [] \<Rightarrow> Inr \<lparr>columns = cs,
                   rows = map (\<lambda>r. map (\<lambda>c. r ! index_of (columns df) c) cs) (rows df)\<rparr>)"

text \<open>\<open>df.columns = labels\<close>: a length mismatch raises.\<close>

definition set_columns :: "dataframe \<Rightarrow> string list \<Rightarrow> py_error + dataframe" where
  "set_columns df cs =
     (if length cs = length (columns df) then Inr (df\<lparr>columns := cs\<rparr>) else Inl ValueError)"

text \<open>\<open>df.dropna()\<close>: drops every row with a missing value in any column.\<close>

definition dropna :: "dataframe \<Rightarrow> dataframe" where
  "dropna df = df\<lparr>rows := filter (\<lambda>r. \<not> list_ex isna r) (rows df)\<rparr>"

text \<open>\<open>df[c] = df[c].astype(t)\<close>, with the conversion of one cell as a parameter.\<close>

definition astype :: "(json \<Rightarrow> py_error + json) \<Rightarrow> string \<Rightarrow> dataframe \<Rightarrow> py_error + dataframe" where
  "astype conv c df =
     (if c \<notin> set (columns df) then Inl (KeyError c)
      else let i = index_of (columns df) c
           in case map_result
                     (\<lambda>r. case conv (r ! i) of Inl e \<Rightarrow> Inl e | Inr v \<Rightarrow> Inr (r[i := v]))
                     (rows df) of
                Inl e \<Rightarrow> Inl e
              | Inr rs \<Rightarrow> Inr (df\<lparr>rows := rs\<rparr>))"

text \<open>
  Python's \<open>int(s)\<close> and \<open>float(s)\<close> on a string are built-ins of the language, not code of
  this program: they are parameters of the model. \<open>None\<close> is the \<open>ValueError\<close> of an
  unparsable string.
\<close>

record builtins =
  int_of_str :: "string \<Rightarrow> int option"
  float_of_str :: "string \<Rightarrow> pyfloat option"

definition truncate :: "real \<Rightarrow> int" where
  "truncate r = (if 0 \<le> r then \<lfloor>r\<rfloor> else \<lceil>r\<rceil>)"

text \<open>
  \<open>astype(int)\<close> makes 64-bit integers: a Python integer outside
  \<open>-2^63 \<dots> 2^63 - 1\<close> raises \<open>OverflowError\<close>.
\<close>

definition to_int64 :: "int \<Rightarrow> py_error + json" where
  "to_int64 i =
     (if - 9223372036854775808 \<le> i \<and> i \<le> 9223372036854775807 then Inr (JInt i)
      else Inl OverflowError)"

text \<open>
  \<open>astype(float)\<close> makes 64-bit floats. An integer of at most 53 bits is exact; a longer one
  is rounded to 53 significant bits, ties to even, and raises \<open>OverflowError\<close> when the
  rounded value reaches \<open>2^1024\<close>.
\<close>

definition to_float64 :: "int \<Rightarrow> py_error + json" where
  "to_float64 i =
     (if \<bar>i\<bar> \<le> 9007199254740992 then Inr (JFloat (Fin (of_int i)))
      else let e = nat (bitlen \<bar>i\<bar> - 53);
               q = \<bar>i\<bar> div 2 ^ e;
               r = \<bar>i\<bar> mod 2 ^ e;
               q' = (if 2 * r > 2 ^ e \<or> (2 * r = 2 ^ e \<and> odd q) then q + 1 else q)
           in if q' * 2 ^ e \<ge> 2 ^ 1024 then Inl OverflowError
              else Inr (JFloat (Fin (of_int (sgn i * (q' * 2 ^ e))))))"

fun py_int :: "builtins \<Rightarrow> json \<Rightarrow> py_error + json" where
  "py_int B (JInt i) = to_int64 i"
| "py_int B (JBool b) = Inr (JInt (if b then 1 else 0))"
| "py_int B (JFloat (Fin r)) = to_int64 (truncate r)"
| "py_int B (JFloat NaN) = Inl ValueError"
| "py_int B (JStr s) =
     (case int_of_str B s of None \<Rightarrow> Inl ValueError | Some i \<Rightarrow> to_int64 i)"
| "py_int B _ = Inl TypeError"

fun py_float :: "builtins \<Rightarrow> json \<Rightarrow> py_error + json" where
  "py_float B (JInt i) = to_float64 i"
| "py_float B (JBool b) = Inr (JFloat (Fin (if b then 1 else 0)))"
| "py_float B (JFloat f) = Inr (JFloat f)"
| "py_float B (JStr s) =
     (case float_of_str B s of None \<Rightarrow> Inl ValueError | Some f \<Rightarrow> Inr (JFloat f))"
| "py_float B _ = Inl TypeError"

section \<open>The reshaper\<close>

definition process_data :: "builtins \<Rightarrow> (string \<times> json) list list \<Rightarrow> py_error + dataframe" where
  "process_data B raw_data =
     (if raw_data \<noteq> [] then
        (case getitem_cols (pd_DataFrame raw_data) [''countryiso3code'', ''date'', ''value''] of
           Inl e \<Rightarrow> Inl e
         | Inr df1 \<Rightarrow>
        (case set_columns df1 [''Country Code'', ''Year'', ''Value''] of
           Inl e \<Rightarrow> Inl e
         | Inr df2 \<Rightarrow>
        (case astype (py_int B) ''Year'' (dropna df2) of
           Inl e \<Rightarrow> Inl e
         | Inr df3 \<Rightarrow> astype (py_float B) ''Value'' df3)))
      else Inr pd_DataFrame_empty)"

text \<open>
  \<open>pd.merge(left, right, on=keys, how='outer', suffixes=(ls, rs))\<close>. A key that is not a
  column of both frames raises \<open>KeyError\<close>. Otherwise the result has the left frame's
  columns followed by the right frame's columns that are not keys; a column that is not a
  key and occurs in both frames takes the suffix of its side. Every pair of a left and a
  right row with equal keys gives one row; a left row without partner is filled with
  \<open>NaN\<close> on the right, a right row without partner is filled with \<open>NaN\<close> on the left
  but for its keys. pandas orders the rows of an outer join by key; the model lists them
  in the order of the left frame, the unmatched right rows last.
\<close>

definition key_of :: "string list \<Rightarrow> string list \<Rightarrow> json list \<Rightarrow> json list" where
  "key_of cols on r = map (\<lambda>k. r ! index_of cols k) on"

definition rest_of :: "string list \<Rightarrow> string list \<Rightarrow> json list \<Rightarrow> json list" where
  "rest_of cols on r = map snd (filter (\<lambda>(c, v). c \<notin> set on) (zip cols r))"

definition merge_columns :: "string list \<Rightarrow> string list \<Rightarrow> string list \<Rightarrow> string \<times> string
    \<Rightarrow> string list" where
  "merge_columns lc rc on suffixes =
     map (\<lambda>c. if c \<notin> set on \<and> c \<in> set rc then c @ fst suffixes else c) lc
     @ map (\<lambda>c. if c \<in> set lc then c @ snd suffixes else c) (filter (\<lambda>c. c \<notin> set on) rc)"

definition left_rows :: "dataframe \<Rightarrow> dataframe \<Rightarrow> string list \<Rightarrow> json list \<Rightarrow> json list list" where
  "left_rows left right on l =
     (let ms = filter (\<lambda>r. key_of (columns right) on r = key_of (columns left) on l) (rows right)
      in if ms = []
         then [l @ replicate (length (filter (\<lambda>c. c \<notin> set on) (columns right))) (JFloat NaN)]
         else map (\<lambda>r. l @ rest_of (columns right) on r) ms)"

definition right_only :: "dataframe \<Rightarrow> dataframe \<Rightarrow> string list \<Rightarrow> json list \<Rightarrow> json list" where
  "right_only left right on r =
     map (\<lambda>c. if c \<in> set on then r ! index_of (columns right) c else JFloat NaN) (columns left)
     @ rest_of (columns right) on r"

definition pd_merge_outer :: "dataframe \<Rightarrow> dataframe \<Rightarrow> string list \<Rightarrow> string \<times> string
    \<Rightarrow> py_error + dataframe" where
  "pd_merge_outer left right on suffixes =
     (case filter (\<lambda>k. k \<notin> set (columns right) \<or> k \<notin> set (columns left)) on of
        k # _ \<Rightarrow> Inl (KeyError k)
      | [] \<Rightarrow>
          Inr \<lparr>columns = merge_columns (columns left) (columns right) on suffixes,
               rows = concat (map (left_rows left right on) (rows left))
                      @ map (right_only left right on)
                          (filter (\<lambda>r. key_of (columns right) on r
                                         \<notin> set (map (key_of (columns left) on) (rows left)))
                             (rows right))\<rparr>)"

text \<open>The program's one call of \<open>pd.merge\<close>, on the two normalized frames.\<close>

definition merge_frames :: "dataframe \<Rightarrow> dataframe \<Rightarrow> py_error + dataframe" where
  "merge_frames population_df migration_df =
     pd_merge_outer population_df migration_df [''Country Code'', ''Year'']
       (''_Population'', ''_Net Migration'')"

section \<open>Start-up: fetching, reshaping and merging\<close>

definition country_codes :: "string list" where
  "country_codes = [''AFG'', ''IND'', ''PAK'', ''BGD'', ''LKA'']"

definition indicators :: "(string \<times> string) list" where
  "indicators = [(''Population'', ''SP.POP.TOTL''), (''Net Migration'', ''SM.POP.NETM'')]"

definition start_year :: int where
  "start_year = 1960"

definition end_year :: int where
  "end_year = 2023"

text \<open>
  \<open>process_data\<close> is modelled on a list of dicts, the shape of the records the service
  documents. \<open>as_series\<close> reads a fetched value as such a list; any other value is
  outside the model (\<open>NotModelled\<close>).
\<close>

fun as_record :: "json \<Rightarrow> (string \<times> json) list option" where
  "as_record (JObj kvs) = Some kvs"
| "as_record _ = None"

fun as_series :: "json \<Rightarrow> (string \<times> json) list list option" where
  "as_series (JArr xs) =
     (if list_all (\<lambda>x. as_record x \<noteq> None) xs then Some (map (\<lambda>x. the (as_record x)) xs)
      else None)"
| "as_series _ = None"

text \<open>The loop over \<open>indicators.items()\<close>, filling the dict \<open>all_data\<close>.\<close>

fun load_all_data :: "builtins \<Rightarrow> service \<Rightarrow> (string \<times> string) list \<Rightarrow> (string \<times> dataframe) list
    \<Rightarrow> world \<Rightarrow> (py_error + (string \<times> dataframe) list) \<times> world" where
  "load_all_data B srv [] all_data w = (Inr all_data, w)"
| "load_all_data B srv ((name, indicator) # rest) all_data w =
     (case fetch_data srv country_codes indicator start_year end_year w of
        (Inl e, w1) \<Rightarrow> (Inl e, w1)
      | (Inr raw, w1) \<Rightarrow>
          (case as_series raw of
             None \<Rightarrow> (Inl NotModelled, w1)
           | Some raw_data \<Rightarrow>
               (case process_data B raw_data of
                  Inl e \<Rightarrow> (Inl e, w1)
                | Inr processed_data \<Rightarrow>
                    load_all_data B srv rest (AList.update name processed_data all_data) w1)))"

text \<open>\<open>all_data.get(name, pd.DataFrame())\<close>.\<close>

definition get_frame :: "(string \<times> dataframe) list \<Rightarrow> string \<Rightarrow> dataframe" where
  "get_frame all_data name =
     (case map_of all_data name of None \<Rightarrow> pd_DataFrame_empty | Some d \<Rightarrow> d)"

text \<open>
  The module's top level up to \<open>df = merged_df.copy()\<close>. With an empty \<open>all_data\<close> the
  name \<open>merged_df\<close> would be unbound.
\<close>

definition merged_df :: "builtins \<Rightarrow> service \<Rightarrow> world \<Rightarrow> (py_error + dataframe) \<times> world" where
  "merged_df B srv w =
     (case load_all_data B srv indicators [] w of
        (Inl e, w1) \<Rightarrow> (Inl e, w1)
      | (Inr all_data, w1) \<Rightarrow>
          if all_data \<noteq> [] then
            (let population_df = get_frame all_data ''Population'';
                 migration_df = get_frame all_data ''Net Migration''
             in (merge_frames population_df migration_df, w1))
          else (Inl NameError, w1))"

section \<open>The dashboard's filter\<close>

text \<open>
  The callback reads the module-level frame \<open>df\<close>, held in the application's state. Its
  figures, table and summary are all computed from \<open>filtered_df\<close>; the model returns
  \<open>filtered_df\<close> and the state the callback leaves behind.
\<close>

record app =
  df :: dataframe

text \<open>\<open>df[c]\<close>: the cells of one column.\<close>

definition getitem_col :: "dataframe \<Rightarrow> string \<Rightarrow> py_error + json list" where
  "getitem_col d c =
     (if c \<notin> set (columns d) then Inl (KeyError c)
      else Inr (map (\<lambda>r. r ! index_of (columns d) c) (rows d)))"

text \<open>\<open>series.isin(values)\<close> for a list of strings.\<close>

definition isin :: "json list \<Rightarrow> string list \<Rightarrow> bool list" where
  "isin cells values = map (\<lambda>c. case c of JStr s \<Rightarrow> s \<in> set values | _ \<Rightarrow> False) cells"

text \<open>
  \<open>cell >= b\<close> and \<open>cell <= b\<close> for an integer \<open>b\<close>: numeric on numbers, false on \<open>NaN\<close>,
  a \<open>TypeError\<close> on anything else.
\<close>

fun py_ge :: "json \<Rightarrow> int \<Rightarrow> py_error + bool" where
  "py_ge (JInt y) b = Inr (y \<ge> b)"
| "py_ge (JBool t) b = Inr ((if t then 1 else 0) \<ge> b)"
| "py_ge (JFloat (Fin r)) b = Inr (r \<ge> of_int b)"
| "py_ge (JFloat NaN) b = Inr False"
| "py_ge _ b = Inl TypeError"

fun py_le :: "json \<Rightarrow> int \<Rightarrow> py_error + bool" where
  "py_le (JInt y) b = Inr (y \<le> b)"
| "py_le (JBool t) b = Inr ((if t then 1 else 0) \<le> b)"
| "py_le (JFloat (Fin r)) b = Inr (r \<le> of_int b)"
| "py_le (JFloat NaN) b = Inr False"
| "py_le _ b = Inl TypeError"

text \<open>\<open>xs[i]\<close> on a list, for an index that is not negative.\<close>

definition py_index :: "'a list \<Rightarrow> nat \<Rightarrow> py_error + 'a" where
  "py_index xs i = (if i < length xs then Inr (xs ! i) else Inl IndexError)"

text \<open>\<open>df[mask]\<close>: the rows whose mask entry is true.\<close>

definition getitem_mask :: "dataframe \<Rightarrow> bool list \<Rightarrow> dataframe" where
  "getitem_mask d keep = d\<lparr>rows := map fst (filter snd (zip (rows d) keep))\<rparr>"

definition update_dashboard :: "app \<Rightarrow> string list \<Rightarrow> int list \<Rightarrow> (py_error + dataframe) \<times> app" where
  "update_dashboard st selected_countries selected_year_range =
     (case getitem_col (df st) ''Country Code'' of
        Inl e \<Rightarrow> (Inl e, st)
      | Inr codes \<Rightarrow>
     (case getitem_col (df st) ''Year'' of
        Inl e \<Rightarrow> (Inl e, st)
      | Inr years \<Rightarrow>
     (case py_index selected_year_range 0 of
        Inl e \<Rightarrow> (Inl e, st)
      | Inr lo \<Rightarrow>
     (case map_result (\<lambda>y. py_ge y lo) years of
        Inl e \<Rightarrow> (Inl e, st)
      | Inr ge_lo \<Rightarrow>
     (case py_index selected_year_range 1 of
        Inl e \<Rightarrow> (Inl e, st)
      | Inr hi \<Rightarrow>
     (case map_result (\<lambda>y. py_le y hi) years of
        Inl e \<Rightarrow> (Inl e, st)
      | Inr le_hi \<Rightarrow>
          (Inr (getitem_mask (df st)
                  (map2 (\<and>) (map2 (\<and>) (isin codes selected_countries) ge_lo) le_hi)),
           st)))))))"

section \<open>The notions of the specification\<close>

subsection \<open>Tables\<close>

text \<open>
  A metric table is a frame as \<open>process_data\<close> builds it from records: the three columns
  \<open>Country Code\<close>, \<open>Year\<close>, \<open>Value\<close>, one cell per column in every row, the year an
  integer. The keys of a frame are the \<open>(Country Code, Year)\<close> pairs of its rows, and
  \<open>cell d c r\<close> is the cell of row \<open>r\<close> in the column labelled \<open>c\<close>.
\<close>

fun is_int :: "json \<Rightarrow> bool" where
  "is_int (JInt y) = True"
| "is_int _ = False"

definition metric_table :: "dataframe \<Rightarrow> bool" where
  "metric_table T =
     (columns T = [''Country Code'', ''Year'', ''Value'']
      \<and> list_all (\<lambda>r. length r = 3 \<and> is_int (r ! 1)) (rows T))"

definition frame_keys :: "dataframe \<Rightarrow> json list set" where
  "frame_keys d = set (map (key_of (columns d) [''Country Code'', ''Year'']) (rows d))"

definition cell :: "dataframe \<Rightarrow> string \<Rightarrow> json list \<Rightarrow> json" where
  "cell d c r = r ! index_of (columns d) c"

text \<open>
  The rows an outer join of two metric tables has to have: one row for every pair of rows
  that agree on the key, and one \<open>NaN\<close>-filled row for every row without partner.
\<close>

definition merged_row_set :: "dataframe \<Rightarrow> dataframe \<Rightarrow> json list set" where
  "merged_row_set T1 T2 =
       {[a, b, c, d] | a b c d. [a, b, c] \<in> set (rows T1) \<and> [a, b, d] \<in> set (rows T2)}
     \<union> {[a, b, c, JFloat NaN] | a b c. [a, b, c] \<in> set (rows T1) \<and> [a, b] \<notin> frame_keys T2}
     \<union> {[a, b, JFloat NaN, d] | a b d. [a, b, d] \<in> set (rows T2) \<and> [a, b] \<notin> frame_keys T1}"

text \<open>
  A merged table is a frame as the merge of two metric tables builds it: the two key
  columns and one value column per metric, the year an integer in every row.
\<close>

definition merged_table :: "dataframe \<Rightarrow> bool" where
  "merged_table d =
     (columns d = [''Country Code'', ''Year'', ''Value_Population'', ''Value_Net Migration'']
      \<and> list_all (\<lambda>r. length r = 4 \<and> is_int (r ! 1)) (rows d))"

subsection \<open>Records of a series\<close>

text \<open>
  \<open>field r c\<close> is the cell that \<open>pd.DataFrame\<close> makes of key \<open>c\<close> of record \<open>r\<close>.
\<close>

definition field :: "(string \<times> json) list \<Rightarrow> string \<Rightarrow> json" where
  "field r c = (case map_of r c of None \<Rightarrow> JFloat NaN | Some v \<Rightarrow> v)"

definition complete_record :: "(string \<times> json) list \<Rightarrow> bool" where
  "complete_record r = (\<not> isna (field r ''countryiso3code'') \<and> \<not> isna (field r ''date'')
                  \<and> \<not> isna (field r ''value''))"

text \<open>
  What \<open>process_data\<close> makes of one record: the entity code as it is, the year through
  \<open>int\<close>, the value through \<open>float\<close>.
\<close>

definition normalized :: "builtins \<Rightarrow> (string \<times> json) list \<Rightarrow> json list \<Rightarrow> bool" where
  "normalized B r row =
     (\<exists>y x. py_int B (field r ''date'') = Inr y \<and> py_float B (field r ''value'') = Inr x
            \<and> row = [field r ''countryiso3code'', y, x])"


subsection \<open>The request\<close>

text \<open>
  The request the interface description asks for: a GET to
  \<open>{base_url}/country/{semicolon-joined entity codes}/indicator/{metric_id}\<close> with the query
  parameters \<open>format=json\<close>, \<open>date={start_year}:{end_year}\<close> and \<open>per_page=5000\<close>.
\<close>

definition base_url :: string where
  "base_url = ''http://api.worldbank.org/v2''"

definition spec_request :: "string list \<Rightarrow> string \<Rightarrow> int \<Rightarrow> int \<Rightarrow> request" where
  "spec_request entity_codes metric_id first_year last_year =
     \<lparr>verb = GET,
      url = base_url @ ''/country/'' @ str_join '';'' entity_codes @ ''/indicator/'' @ metric_id,
      params = [(''format'', PStr ''json''),
                (''date'', PStr (str_int first_year @ '':'' @ str_int last_year)),
                (''per_page'', PInt 5000)]\<rparr>"

subsection \<open>The row test of the filter\<close>

text \<open>
  The row test of the dashboard's filter: the country is one of the selected strings and
  both comparisons of the year come out true.
\<close>

definition kept :: "dataframe \<Rightarrow> string list \<Rightarrow> int \<Rightarrow> int \<Rightarrow> json list \<Rightarrow> bool" where
  "kept d cs lo hi r =
     ((case cell d ''Country Code'' r of JStr s \<Rightarrow> s \<in> set cs | _ \<Rightarrow> False)
      \<and> py_ge (cell d ''Year'' r) lo = Inr True
      \<and> py_le (cell d ''Year'' r) hi = Inr True)"

text \<open>Every year of the frame can be compared with both bounds, so no comparison raises.\<close>

definition comparable :: "dataframe \<Rightarrow> int \<Rightarrow> int \<Rightarrow> bool" where
  "comparable d lo hi =
     list_all (\<lambda>r. (\<exists>b. py_ge (cell d ''Year'' r) lo = Inr b)
                  \<and> (\<exists>b. py_le (cell d ''Year'' r) hi = Inr b)) (rows d)"

section \<open>Sample data\<close>

text \<open>
  An instance of the built-ins for the evaluations below: a string of decimal digits is
  read as Python reads it, every other string is rejected (Python accepts more).
\<close>

fun digits_val :: "nat \<Rightarrow> string \<Rightarrow> nat option" where
  "digits_val acc [] = Some acc"
| "digits_val acc (c # cs) =
     (let d = (of_char c :: nat)
      in if 48 \<le> d \<and> d \<le> 57 then digits_val (10 * acc + (d - 48)) cs else None)"

definition decimal_builtins :: builtins where
  "decimal_builtins =
     \<lparr>int_of_str = (\<lambda>s. if s = [] then None else map_option int (digits_val 0 s)),
      float_of_str = (\<lambda>s. if s = [] then None
                          else map_option (\<lambda>n. Fin (of_nat n)) (digits_val 0 s))\<rparr>"

text \<open>
  Records as the service sends them. The first has a null in a field that
  \<open>process_data\<close> does not select; the third has a null value.
\<close>

definition record_afg_2020 :: "(string \<times> json) list" where
  "record_afg_2020 =
     [(''indicator'', JObj [(''id'', JStr ''SP.POP.TOTL''), (''value'', JStr ''Population, total'')]),
      (''country'', JObj [(''id'', JStr ''AF''), (''value'', JStr ''Afghanistan'')]),
      (''countryiso3code'', JStr ''AFG''),
      (''date'', JStr ''2020''),
      (''value'', JInt 38972230),
      (''unit'', JStr []),
      (''obs_status'', JNull),
      (''decimal'', JInt 0)]"

definition record_ind_2020 :: "(string \<times> json) list" where
  "record_ind_2020 =
     [(''indicator'', JObj [(''id'', JStr ''SP.POP.TOTL''), (''value'', JStr ''Population, total'')]),
      (''country'', JObj [(''id'', JStr ''IN''), (''value'', JStr ''India'')]),
      (''countryiso3code'', JStr ''IND''),
      (''date'', JStr ''2020''),
      (''value'', JInt 1396387127),
      (''unit'', JStr []),
      (''obs_status'', JStr []),
      (''decimal'', JInt 0)]"

definition record_pak_2023 :: "(string \<times> json) list" where
  "record_pak_2023 =
     [(''indicator'', JObj [(''id'', JStr ''SP.POP.TOTL''), (''value'', JStr ''Population, total'')]),
      (''country'', JObj [(''id'', JStr ''PK''), (''value'', JStr ''Pakistan'')]),
      (''countryiso3code'', JStr ''PAK''),
      (''date'', JStr ''2023''),
      (''value'', JNull),
      (''unit'', JStr []),
      (''obs_status'', JStr []),
      (''decimal'', JInt 0)]"




text \<open>
  Two small tables: population for AFG and IND in 2020, net migration for AFG in 2020 only.
\<close>

definition scenario_b_population :: dataframe where
  "scenario_b_population =
     \<lparr>columns = [''Country Code'', ''Year'', ''Value''],
      rows = [[JStr ''AFG'', JInt 2020, JFloat (Fin 38972230)],
              [JStr ''IND'', JInt 2020, JFloat (Fin 1396387127)]]\<rparr>"

definition scenario_b_migration :: dataframe where
  "scenario_b_migration =
     \<lparr>columns = [''Country Code'', ''Year'', ''Value''],
      rows = [[JStr ''AFG'', JInt 2020, JFloat (Fin 166821)]]\<rparr>"

definition scenario_b_merged :: dataframe where
  "scenario_b_merged =
     \<lparr>columns = [''Country Code'', ''Year'', ''Value_Population'', ''Value_Net Migration''],
      rows = [[JStr ''AFG'', JInt 2020, JFloat (Fin 38972230), JFloat (Fin 166821)],
              [JStr ''IND'', JInt 2020, JFloat (Fin 1396387127), JFloat NaN]]\<rparr>"

text \<open>Two answers of a service: a server error, and a one-element envelope.\<close>

definition error_500 :: service where
  "error_500 req = Inr \<lparr>status_code = 500, body = None\<rparr>"

definition short_envelope :: service where
  "short_envelope req =
     Inr \<lparr>status_code = 200,
          body = Some (JArr [JObj [(''message'', JArr [JObj [(''id'', JStr ''120'')]])]])\<rparr>"

definition empty_world :: world where
  "empty_world = \<lparr>sent = [], printed = []\<rparr>"

text \<open>
  A service that answers the population request with two records and every other request
  with a server error.
\<close>

definition scenario_c_service :: service where
  "scenario_c_service req =
     (if url req = ''http://api.worldbank.org/v2/country/AFG;IND;PAK;BGD;LKA/indicator/SP.POP.TOTL''
      then Inr \<lparr>status_code = 200,
                body = Some (JArr [JObj [(''page'', JInt 1), (''pages'', JInt 1),
                                         (''per_page'', JInt 5000), (''total'', JInt 2)],
                                   JArr [JObj record_afg_2020, JObj record_ind_2020]])\<rparr>
      else Inr \<lparr>status_code = 500, body = None\<rparr>)"

text \<open>A merged table with years at, between and beyond the bounds of a selection.\<close>

definition sample_merged :: dataframe where
  "sample_merged =
     \<lparr>columns = [''Country Code'', ''Year'', ''Value_Population'', ''Value_Net Migration''],
      rows = [[JStr ''AFG'', JInt 1960, JFloat (Fin 8622466), JFloat (Fin 2606)],
              [JStr ''AFG'', JInt 1990, JFloat (Fin 10694796), JFloat NaN],
              [JStr ''AFG'', JInt 2023, JFloat (Fin 42239854), JFloat (Fin (-65846))],
              [JStr ''IND'', JInt 1990, JFloat (Fin 870452165), JFloat (Fin 2614)]]\<rparr>"

section \<open>Properties of the fetcher\<close>

lemma fetch_data_sends:
  "fetch_data srv cs ind sy ey w =
     (case srv (spec_request cs ind sy ey) of
        Inl e \<Rightarrow> (Inl e, w\<lparr>sent := sent w @ [spec_request cs ind sy ey]\<rparr>)
      | Inr resp \<Rightarrow>
          if status_code resp = 200 then
            (case response_json resp of
               Inl e \<Rightarrow> (Inl e, w\<lparr>sent := sent w @ [spec_request cs ind sy ey]\<rparr>)
             | Inr data \<Rightarrow>
                 (case py_len data of
                    Inl e \<Rightarrow> (Inl e, w\<lparr>sent := sent w @ [spec_request cs ind sy ey]\<rparr>)
                  | Inr n \<Rightarrow>
                      if n > 1 then (py_getitem1 data, w\<lparr>sent := sent w @ [spec_request cs ind sy ey]\<rparr>)
                      else (Inr (JArr []),
                            print (''No data found for indicator '' @ ind @ ''!'')
                              (w\<lparr>sent := sent w @ [spec_request cs ind sy ey]\<rparr>))))
          else (Inr (JArr []),
                print (''Failed to fetch data for indicator '' @ ind
                         @ ''. HTTP Status code: '' @ str_int (status_code resp))
                  (w\<lparr>sent := sent w @ [spec_request cs ind sy ey]\<rparr>)))"
  by (simp add: fetch_data_def requests_get_def spec_request_def base_url_def Let_def
      split: sum.splits)

text \<open>
  Claim C9. Every call of \<open>fetch_data\<close> issues exactly one request, whatever the service
  answers: the GET request of the interface description, to
  \<open>{base_url}/country/{semicolon-joined codes}/indicator/{metric_id}\<close> with the parameters
  \<open>format=json\<close>, \<open>date={start_year}:{end_year}\<close>, \<open>per_page=5000\<close>.
\<close>

theorem fetch_data_request:
  "sent (snd (fetch_data srv cs ind sy ey w)) = sent w @ [spec_request cs ind sy ey]"
  by (simp add: fetch_data_sends print_def split: sum.splits)

lemma str_int_years: "str_int 1960 = ''1960''" "str_int 2023 = ''2023''" "str_int 500 = ''500''"
  by code_simp+

lemma startup_request:
  "spec_request country_codes ''SP.POP.TOTL'' start_year end_year =
     \<lparr>verb = GET,
      url = ''http://api.worldbank.org/v2/country/AFG;IND;PAK;BGD;LKA/indicator/SP.POP.TOTL'',
      params = [(''format'', PStr ''json''), (''date'', PStr ''1960:2023''),
                (''per_page'', PInt 5000)]\<rparr>"
  by (simp add: spec_request_def base_url_def country_codes_def start_year_def end_year_def
      str_int_years)

text \<open>
  Claim C1. When the service answers the request with a status other than 200 (every
  non-success status is one), or with status 200 and a JSON array of fewer than two
  elements, \<open>fetch_data\<close> raises nothing and returns the empty list.
\<close>

theorem fetch_data_fail_soft:
  assumes "srv (spec_request cs ind sy ey) = Inr resp"
    and "status_code resp \<noteq> 200 \<or> (\<exists>xs. body resp = Some (JArr xs) \<and> length xs < 2)"
  shows "fst (fetch_data srv cs ind sy ey w) = Inr (JArr [])"
  using assms by (auto simp: fetch_data_sends response_json_def)

theorem fetch_data_fail_soft_witness:
  "fst (fetch_data error_500 country_codes ''SM.POP.NETM'' start_year end_year empty_world)
     = Inr (JArr [])
   \<and> fst (fetch_data short_envelope country_codes ''SM.POP.NETM'' start_year end_year empty_world)
     = Inr (JArr [])"
proof -
  have "fst (fetch_data error_500 country_codes ''SM.POP.NETM'' start_year end_year empty_world)
     = Inr (JArr [])"
    by (rule fetch_data_fail_soft[where resp = "\<lparr>status_code = 500, body = None\<rparr>"])
       (simp_all add: error_500_def)
  moreover have "fst (fetch_data short_envelope country_codes ''SM.POP.NETM'' start_year end_year empty_world)
     = Inr (JArr [])"
    by (rule fetch_data_fail_soft[where resp = "\<lparr>status_code = 200,
          body = Some (JArr [JObj [(''message'', JArr [JObj [(''id'', JStr ''120'')]])]])\<rparr>"])
       (simp_all add: short_envelope_def)
  ultimately show ?thesis by simp
qed

lemma fetch_data_diagnostic:
  assumes "srv (spec_request cs ind sy ey) = Inr resp" and "status_code resp \<noteq> 200"
  shows "printed (snd (fetch_data srv cs ind sy ey w)) =
           printed w @ [''Failed to fetch data for indicator '' @ ind
                         @ ''. HTTP Status code: '' @ str_int (status_code resp)]"
  using assms by (simp add: fetch_data_sends print_def)

section \<open>Properties of the reshaper\<close>

lemma map_result_Inr:
  "map_result f xs = Inr ys \<longleftrightarrow> list_all2 (\<lambda>x y. f x = Inr y) xs ys"
proof (induction xs arbitrary: ys)
  case Nil
  show ?case by auto
next
  case (Cons x xs)
  show ?case
  proof (cases "f x")
    case (Inl e)
    then show ?thesis by (auto simp: list_all2_Cons1)
  next
    case (Inr y)
    show ?thesis
    proof (cases "map_result f xs")
      case (Inl e)
      with Cons Inr show ?thesis
        by (auto simp: list_all2_Cons1)
    next
      case r: (Inr zs)
      with Cons Inr show ?thesis
        by (auto simp: list_all2_Cons1)
    qed
  qed
qed

lemma map_result_returns:
  "(\<And>x. x \<in> set xs \<Longrightarrow> \<exists>y. f x = Inr y) \<Longrightarrow> \<exists>ys. map_result f xs = Inr ys"
proof (induction xs)
  case Nil
  show ?case by simp
next
  case (Cons x xs)
  from Cons.prems[of x] obtain y where "f x = Inr y" by auto
  moreover from Cons obtain ys where "map_result f xs = Inr ys" by auto
  ultimately show ?case by simp
qed

lemma map_index_of:
  "c \<in> set xs \<Longrightarrow> map f xs ! index_of xs c = f c"
  by (induction xs) auto

lemma set_first_seen [simp]: "set (first_seen xs) = set xs"
  by (simp add: first_seen_def)


lemma getitem_cols_Inr:
  "getitem_cols d cs = Inr D \<longleftrightarrow>
     set cs \<subseteq> set (columns d)
     \<and> D = \<lparr>columns = cs, rows = map (\<lambda>r. map (\<lambda>c. r ! index_of (columns d) c) cs) (rows d)\<rparr>"
proof (cases "filter (\<lambda>c. c \<notin> set (columns d)) cs")
  case Nil
  then have "set cs \<subseteq> set (columns d)" by (auto simp: filter_empty_conv)
  with Nil show ?thesis by (auto simp: getitem_cols_def)
next
  case (Cons m ms)
  then have "m \<in> set (filter (\<lambda>c. c \<notin> set (columns d)) cs)" by simp
  then have "\<not> set cs \<subseteq> set (columns d)" by auto
  with Cons show ?thesis by (simp add: getitem_cols_def)
qed

lemma selected_frame:
  assumes "getitem_cols (pd_DataFrame raw) [''countryiso3code'', ''date'', ''value''] = Inr D"
  shows "D = \<lparr>columns = [''countryiso3code'', ''date'', ''value''],
              rows = map (\<lambda>r. [field r ''countryiso3code'', field r ''date'', field r ''value'']) raw\<rparr>"
proof -
  let ?cols = "first_seen (concat (map (map fst) raw))"
  have cols: "columns (pd_DataFrame raw) = ?cols"
    and rws: "rows (pd_DataFrame raw) = map (\<lambda>r. map (field r) ?cols) raw"
    by (simp_all add: pd_DataFrame_def Let_def field_def)
  from assms have mem: "''countryiso3code'' \<in> set ?cols" "''date'' \<in> set ?cols" "''value'' \<in> set ?cols"
    and D: "D = \<lparr>columns = [''countryiso3code'', ''date'', ''value''],
                 rows = map (\<lambda>r. map (\<lambda>c. r ! index_of ?cols c)
                                [''countryiso3code'', ''date'', ''value''])
                          (map (\<lambda>r. map (field r) ?cols) raw)\<rparr>"
    unfolding getitem_cols_Inr cols rws by simp_all
  show ?thesis
    unfolding D using mem by (simp add: map_index_of)
qed



lemma astype_Inr:
  "astype conv c d = Inr T \<longleftrightarrow>
     c \<in> set (columns d)
     \<and> (\<exists>rs. list_all2 (\<lambda>r r'. \<exists>v. conv (r ! index_of (columns d) c) = Inr v
                                  \<and> r' = r[index_of (columns d) c := v]) (rows d) rs
             \<and> T = d\<lparr>rows := rs\<rparr>)"
proof (cases "c \<in> set (columns d)")
  case False
  then show ?thesis by (simp add: astype_def)
next
  case True
  let ?i = "index_of (columns d) c"
  let ?f = "\<lambda>r. case conv (r ! ?i) of Inl e \<Rightarrow> Inl e | Inr v \<Rightarrow> Inr (r[?i := v])"
  have rel: "\<And>r r'. ?f r = Inr r' \<longleftrightarrow> (\<exists>v. conv (r ! ?i) = Inr v \<and> r' = r[?i := v])"
    by (auto split: sum.splits)
  have "astype conv c d = Inr T \<longleftrightarrow> (\<exists>rs. map_result ?f (rows d) = Inr rs \<and> T = d\<lparr>rows := rs\<rparr>)"
    using True by (auto simp: astype_def Let_def split: sum.splits)
  also have "\<dots> \<longleftrightarrow> (\<exists>rs. list_all2 (\<lambda>r r'. ?f r = Inr r') (rows d) rs \<and> T = d\<lparr>rows := rs\<rparr>)"
    unfolding map_result_Inr ..
  finally show ?thesis using True unfolding rel by simp
qed

lemma dropna_selected:
  "filter (\<lambda>r. \<not> list_ex isna r)
     (map (\<lambda>r. [field r ''countryiso3code'', field r ''date'', field r ''value'']) raw)
   = map (\<lambda>r. [field r ''countryiso3code'', field r ''date'', field r ''value''])
       (filter complete_record raw)"
  by (induction raw) (auto simp: complete_record_def)

lemma process_data_Inr:
  assumes "raw \<noteq> []" and "process_data B raw = Inr T"
  shows "columns T = [''Country Code'', ''Year'', ''Value'']"
    and "list_all2 (normalized B) (filter complete_record raw) (rows T)"
proof -
  from assms obtain d1 d2 d3 where
    d1: "getitem_cols (pd_DataFrame raw) [''countryiso3code'', ''date'', ''value''] = Inr d1"
    and d2: "set_columns d1 [''Country Code'', ''Year'', ''Value''] = Inr d2"
    and d3: "astype (py_int B) ''Year'' (dropna d2) = Inr d3"
    and T: "astype (py_float B) ''Value'' d3 = Inr T"
    by (auto simp: process_data_def split: sum.splits)
  note d1' = selected_frame[OF d1]
  from d2 have d2': "d2 = \<lparr>columns = [''Country Code'', ''Year'', ''Value''],
      rows = map (\<lambda>r. [field r ''countryiso3code'', field r ''date'', field r ''value'']) raw\<rparr>"
    unfolding d1' by (simp add: set_columns_def)
  have dn: "dropna d2 = \<lparr>columns = [''Country Code'', ''Year'', ''Value''],
      rows = map (\<lambda>r. [field r ''countryiso3code'', field r ''date'', field r ''value''])
               (filter complete_record raw)\<rparr>"
    unfolding d2' by (simp add: dropna_def dropna_selected)
  from d3 have "\<exists>rs3. list_all2 (\<lambda>r r'. \<exists>v. py_int B (r ! Suc 0) = Inr v \<and> r' = r[Suc 0 := v])
           (map (\<lambda>r. [field r ''countryiso3code'', field r ''date'', field r ''value''])
               (filter complete_record raw)) rs3
       \<and> d3 = \<lparr>columns = [''Country Code'', ''Year'', ''Value''], rows = rs3\<rparr>"
    unfolding astype_Inr dn by simp
  then obtain rs3 where
    r3: "list_all2 (\<lambda>r r'. \<exists>v. py_int B (r ! Suc 0) = Inr v \<and> r' = r[Suc 0 := v])
           (map (\<lambda>r. [field r ''countryiso3code'', field r ''date'', field r ''value''])
               (filter complete_record raw)) rs3"
    and d3': "d3 = \<lparr>columns = [''Country Code'', ''Year'', ''Value''], rows = rs3\<rparr>"
    by blast
  from T have "\<exists>rs4. list_all2 (\<lambda>r r'. \<exists>v. py_float B (r ! Suc (Suc 0)) = Inr v
                                \<and> r' = r[Suc (Suc 0) := v]) rs3 rs4
       \<and> T = \<lparr>columns = [''Country Code'', ''Year'', ''Value''], rows = rs4\<rparr>"
    unfolding astype_Inr d3' by simp
  then obtain rs4 where
    r4: "list_all2 (\<lambda>r r'. \<exists>v. py_float B (r ! Suc (Suc 0)) = Inr v \<and> r' = r[Suc (Suc 0) := v]) rs3 rs4"
    and T': "T = \<lparr>columns = [''Country Code'', ''Year'', ''Value''], rows = rs4\<rparr>"
    by blast
  show "columns T = [''Country Code'', ''Year'', ''Value'']" by (simp add: T')
  from r3 have r3': "list_all2 (\<lambda>r r'. \<exists>y. py_int B (field r ''date'') = Inr y
                  \<and> r' = [field r ''countryiso3code'', y, field r ''value''])
           (filter complete_record raw) rs3"
    by (simp add: list_all2_map1)
  have "list_all2 ((\<lambda>r r'. \<exists>y. py_int B (field r ''date'') = Inr y
                  \<and> r' = [field r ''countryiso3code'', y, field r ''value''])
          OO (\<lambda>r r'. \<exists>v. py_float B (r ! Suc (Suc 0)) = Inr v \<and> r' = r[Suc (Suc 0) := v]))
          (filter complete_record raw) rs4"
    using r3' r4 by (simp add: list.rel_compp relcomppI)
  then have "list_all2 (normalized B) (filter complete_record raw) rs4"
  proof (rule list_all2_mono)
    fix r row
    assume "((\<lambda>r r'. \<exists>y. py_int B (field r ''date'') = Inr y
                  \<and> r' = [field r ''countryiso3code'', y, field r ''value''])
          OO (\<lambda>r r'. \<exists>v. py_float B (r ! Suc (Suc 0)) = Inr v \<and> r' = r[Suc (Suc 0) := v])) r row"
    then obtain m y v where y: "py_int B (field r ''date'') = Inr y"
      and m: "m = [field r ''countryiso3code'', y, field r ''value'']"
      and v: "py_float B (m ! Suc (Suc 0)) = Inr v" and row: "row = m[Suc (Suc 0) := v]"
      by (elim relcomppE exE conjE)
    from v have "py_float B (field r ''value'') = Inr v" unfolding m by simp
    moreover have "row = [field r ''countryiso3code'', y, v]" unfolding row m by simp
    ultimately show "normalized B r row"
      unfolding normalized_def using y by blast
  qed
  then show "list_all2 (normalized B) (filter complete_record raw) (rows T)" by (simp add: T')
qed


lemma list_all2_right:
  "list_all2 P xs ys \<Longrightarrow> y \<in> set ys \<Longrightarrow> \<exists>x \<in> set xs. P x y"
  by (induction rule: list_all2_induct) auto



lemma to_int64_Inr:
  "to_int64 i = Inr y \<longleftrightarrow>
     - 9223372036854775808 \<le> i \<and> i \<le> 9223372036854775807 \<and> y = JInt i"
  by (auto simp: to_int64_def)

lemma to_float64_Inr: "to_float64 i = Inr x \<Longrightarrow> \<exists>f. x = JFloat (Fin f)"
  by (auto simp: to_float64_def Let_def split: if_splits)

lemma to_float64_exact:
  "\<bar>i\<bar> \<le> 9007199254740992 \<Longrightarrow> to_float64 i = Inr (JFloat (Fin (of_int i)))"
  by (simp add: to_float64_def)

lemma to_int64_overflow: "to_int64 (2 ^ 63) = Inl OverflowError"
  by (simp add: to_int64_def)

lemma to_float64_overflow: "to_float64 (10 ^ 400) = Inl OverflowError"
  by code_simp

lemma to_float64_rounds: "to_float64 (2 ^ 53 + 1) = Inr (JFloat (Fin (2 ^ 53)))"
  by code_simp

lemma py_int_is_int: "py_int B c = Inr y \<Longrightarrow> \<exists>i. y = JInt i"
  by (cases "(B, c)" rule: py_int.cases) (auto simp: to_int64_Inr split: option.splits)

lemma py_float_is_float: "py_float B c = Inr x \<Longrightarrow> \<exists>f. x = JFloat f"
  by (cases "(B, c)" rule: py_float.cases) (auto dest: to_float64_Inr split: option.splits)

lemma process_data_rows:
  assumes "raw \<noteq> []" and "process_data B raw = Inr T" and "row \<in> set (rows T)"
  obtains r where "r \<in> set raw" "complete_record r" "normalized B r row"
proof -
  from list_all2_right[OF process_data_Inr(2)[OF assms(1,2)] assms(3)]
  obtain r where "r \<in> set (filter complete_record raw)" "normalized B r row" by blast
  then show thesis using that by auto
qed

lemma process_data_metric_table:
  assumes "raw \<noteq> []" and "process_data B raw = Inr T"
  shows "metric_table T"
proof -
  have "length row = 3 \<and> is_int (row ! 1)" if "row \<in> set (rows T)" for row
  proof -
    from assms that obtain r where "normalized B r row" by (rule process_data_rows)
    then obtain y x where y: "py_int B (field r ''date'') = Inr y"
      and row: "row = [field r ''countryiso3code'', y, x]"
      unfolding normalized_def by blast
    from py_int_is_int[OF y] obtain i where "y = JInt i" ..
    with row show ?thesis by simp
  qed
  then have "list_all (\<lambda>r. length r = 3 \<and> is_int (r ! 1)) (rows T)"
    unfolding list_all_iff by blast
  with process_data_Inr(1)[OF assms] show ?thesis
    unfolding metric_table_def by simp
qed














text \<open>
  Claim C7. For the empty series the table returned should have no rows and still carry
  the three columns. The code does not do that: \<open>process_data\<close> returns
  \<open>pd.DataFrame()\<close>, a frame with no rows and no columns at all.
\<close>

theorem process_data_empty_series:
  "process_data B [] = Inr \<lparr>columns = [], rows = []\<rparr>"
  by (simp add: process_data_def pd_DataFrame_empty_def)

text \<open>
  The sibling path: a series whose every record is dropped keeps the three columns.
\<close>

lemma process_data_all_dropped:
  "process_data B [record_pak_2023] =
     Inr \<lparr>columns = [''Country Code'', ''Year'', ''Value''], rows = []\<rparr>"
  by (simp add: process_data_def pd_DataFrame_def first_seen_def getitem_cols_def set_columns_def
      dropna_def astype_def isna_def record_pak_2023_def Let_def)

section \<open>Properties of the merge\<close>

lemma length3: "length r = 3 \<Longrightarrow> \<exists>a b c. r = [a, b, c]"
  by (metis (no_types, opaque_lifting) length_0_conv length_Suc_conv numeral_3_eq_3)

lemma metric_row:
  assumes "metric_table T" "r \<in> set (rows T)"
  obtains a y c where "r = [a, JInt y, c]"
proof -
  from assms have l: "length r = 3" and i: "is_int (r ! 1)"
    by (auto simp: metric_table_def list_all_iff)
  from length3[OF l] obtain a b c where r: "r = [a, b, c]" by blast
  with i obtain y where "b = JInt y" by (cases b) auto
  with r that show thesis by blast
qed

lemma key_metric [simp]:
  "key_of [''Country Code'', ''Year'', ''Value''] [''Country Code'', ''Year''] [a, b, c] = [a, b]"
  by (simp add: key_of_def)

lemma rest_metric [simp]:
  "rest_of [''Country Code'', ''Year'', ''Value''] [''Country Code'', ''Year''] [a, b, c] = [c]"
  by (simp add: rest_of_def)


lemma frame_keys_metric:
  assumes "metric_table T"
  shows "frame_keys T = {[a, b] | a b c. [a, b, c] \<in> set (rows T)}"
proof -
  have c: "columns T = [''Country Code'', ''Year'', ''Value'']"
    using assms by (simp add: metric_table_def)
  have shape: "\<And>r. r \<in> set (rows T) \<Longrightarrow> \<exists>a b c. r = [a, b, c]"
    using assms by (auto elim: metric_row)
  show ?thesis
  proof
    show "frame_keys T \<subseteq> {[a, b] | a b c. [a, b, c] \<in> set (rows T)}"
    proof
      fix k assume "k \<in> frame_keys T"
      then obtain r where r: "r \<in> set (rows T)"
        and k: "k = key_of [''Country Code'', ''Year'', ''Value''] [''Country Code'', ''Year''] r"
        unfolding frame_keys_def c by auto
      from shape[OF r] obtain a b c where abc: "r = [a, b, c]" by blast
      have "k = [a, b]" unfolding k abc by simp
      moreover have "[a, b, c] \<in> set (rows T)" using r abc by simp
      ultimately show "k \<in> {[a, b] | a b c. [a, b, c] \<in> set (rows T)}" by blast
    qed
  next
    show "{[a, b] | a b c. [a, b, c] \<in> set (rows T)} \<subseteq> frame_keys T"
    proof
      fix k assume "k \<in> {[a, b] | a b c. [a, b, c] \<in> set (rows T)}"
      then obtain a b c where k: "k = [a, b]" and r: "[a, b, c] \<in> set (rows T)" by blast
      have "key_of (columns T) [''Country Code'', ''Year''] [a, b, c] = k"
        by (simp add: c k)
      then have "k \<in> key_of (columns T) [''Country Code'', ''Year''] ` set (rows T)"
        using r by (rule image_eqI[OF sym])
      then show "k \<in> frame_keys T"
        unfolding frame_keys_def by simp
    qed
  qed
qed

lemma matching_rows:
  assumes "metric_table T"
  shows "set (filter (\<lambda>r. key_of (columns T) [''Country Code'', ''Year''] r = [a, b]) (rows T))
           = {[a, b, d] | d. [a, b, d] \<in> set (rows T)}"
    (is "?L = ?R")
proof -
  have c: "columns T = [''Country Code'', ''Year'', ''Value'']"
    using assms by (simp add: metric_table_def)
  have shape: "\<And>r. r \<in> set (rows T) \<Longrightarrow> \<exists>a b c. r = [a, b, c]"
    using assms by (auto elim: metric_row)
  show ?thesis
  proof
    show "?L \<subseteq> ?R"
    proof
      fix r assume "r \<in> ?L"
      then have r: "r \<in> set (rows T)"
        and k: "key_of [''Country Code'', ''Year'', ''Value''] [''Country Code'', ''Year''] r = [a, b]"
        by (simp_all add: c)
      from shape[OF r] obtain a' b' d where abd: "r = [a', b', d]" by blast
      from k have "a' = a" "b' = b" unfolding abd by simp_all
      with abd r show "r \<in> ?R" by simp
    qed
  next
    show "?R \<subseteq> ?L"
    proof
      fix r assume "r \<in> ?R"
      then obtain d where "r = [a, b, d]" "[a, b, d] \<in> set (rows T)" by blast
      then show "r \<in> ?L" by (simp add: c)
    qed
  qed
qed

lemma set_left_rows:
  assumes "metric_table T1" "metric_table T2"
  shows "set (left_rows T1 T2 [''Country Code'', ''Year''] [a, b, c]) =
      {[a, b, c, d] | d. [a, b, d] \<in> set (rows T2)}
    \<union> (if [a, b] \<in> frame_keys T2 then {} else {[a, b, c, JFloat NaN]})"
proof -
  have c1: "columns T1 = [''Country Code'', ''Year'', ''Value'']"
    and c2: "columns T2 = [''Country Code'', ''Year'', ''Value'']"
    using assms by (simp_all add: metric_table_def)
  define ms where
    "ms = filter (\<lambda>r. key_of (columns T2) [''Country Code'', ''Year''] r = [a, b]) (rows T2)"
  have ms: "set ms = {[a, b, d] | d. [a, b, d] \<in> set (rows T2)}"
    unfolding ms_def by (rule matching_rows[OF assms(2)])
  have lr: "left_rows T1 T2 [''Country Code'', ''Year''] [a, b, c] =
      (if ms = [] then [[a, b, c, JFloat NaN]]
       else map (\<lambda>r. [a, b, c] @ rest_of (columns T2) [''Country Code'', ''Year''] r) ms)"
    by (simp add: left_rows_def ms_def c1 c2 Let_def)
  have img: "(\<lambda>r. [a, b, c] @ rest_of (columns T2) [''Country Code'', ''Year''] r) ` set ms
       = {[a, b, c, d] | d. [a, b, d] \<in> set (rows T2)}"
  proof
    show "(\<lambda>r. [a, b, c] @ rest_of (columns T2) [''Country Code'', ''Year''] r) ` set ms
            \<subseteq> {[a, b, c, d] | d. [a, b, d] \<in> set (rows T2)}"
      unfolding ms c2 by auto
  next
    show "{[a, b, c, d] | d. [a, b, d] \<in> set (rows T2)}
            \<subseteq> (\<lambda>r. [a, b, c] @ rest_of (columns T2) [''Country Code'', ''Year''] r) ` set ms"
    proof
      fix x assume "x \<in> {[a, b, c, d] | d. [a, b, d] \<in> set (rows T2)}"
      then obtain d where x: "x = [a, b, c, d]" and d: "[a, b, d] \<in> set (rows T2)" by blast
      from d have "[a, b, d] \<in> set ms" unfolding ms by blast
      moreover have "x = [a, b, c] @ rest_of (columns T2) [''Country Code'', ''Year''] [a, b, d]"
        by (simp add: x c2)
      ultimately show "x \<in> (\<lambda>r. [a, b, c] @ rest_of (columns T2) [''Country Code'', ''Year''] r) ` set ms"
        by (rule rev_image_eqI)
    qed
  qed
  have empty: "ms = [] \<longleftrightarrow> [a, b] \<notin> frame_keys T2"
  proof -
    have "ms = [] \<longleftrightarrow> set ms = {}" by simp
    also have "\<dots> \<longleftrightarrow> (\<forall>d. [a, b, d] \<notin> set (rows T2))" unfolding ms by blast
    also have "\<dots> \<longleftrightarrow> [a, b] \<notin> frame_keys T2"
      unfolding frame_keys_metric[OF assms(2)] by blast
    finally show ?thesis .
  qed
  show ?thesis
  proof (cases "ms = []")
    case True
    then have "\<And>d. [a, b, d] \<notin> set (rows T2)" using ms by auto
    with True empty show ?thesis by (simp add: lr)
  next
    case False
    with empty img show ?thesis by (simp add: lr)
  qed
qed

lemma set_right_only:
  assumes "metric_table T1" "metric_table T2"
  shows "right_only T1 T2 [''Country Code'', ''Year''] [a, b, d] = [a, b, JFloat NaN, d]"
  using assms by (simp add: right_only_def metric_table_def)

lemma merge_frames_eq:
  assumes "metric_table T1" "metric_table T2"
  shows "merge_frames T1 T2 =
      Inr \<lparr>columns = [''Country Code'', ''Year'', ''Value_Population'', ''Value_Net Migration''],
           rows = concat (map (left_rows T1 T2 [''Country Code'', ''Year'']) (rows T1))
                  @ map (right_only T1 T2 [''Country Code'', ''Year''])
                      (filter (\<lambda>r. key_of (columns T2) [''Country Code'', ''Year''] r \<notin> frame_keys T1)
                         (rows T2))\<rparr>"
proof -
  have c1: "columns T1 = [''Country Code'', ''Year'', ''Value'']"
    and c2: "columns T2 = [''Country Code'', ''Year'', ''Value'']"
    using assms by (simp_all add: metric_table_def)
  show ?thesis
    by (simp add: merge_frames_def pd_merge_outer_def c1 c2 merge_columns_def frame_keys_def)
qed

lemma merged_columns:
  assumes "metric_table T1" "metric_table T2" "merge_frames T1 T2 = Inr M"
  shows "columns M = [''Country Code'', ''Year'', ''Value_Population'', ''Value_Net Migration'']"
  using assms(3) unfolding merge_frames_eq[OF assms(1,2)] by auto

lemma set_left_part:
  assumes "metric_table T1" "metric_table T2"
  shows "set (concat (map (left_rows T1 T2 [''Country Code'', ''Year'']) (rows T1))) =
      {[a, b, c, d] | a b c d. [a, b, c] \<in> set (rows T1) \<and> [a, b, d] \<in> set (rows T2)}
       \<union> {[a, b, c, JFloat NaN] | a b c. [a, b, c] \<in> set (rows T1) \<and> [a, b] \<notin> frame_keys T2}"
    (is "?L = ?R")
proof
  have shape1: "\<And>r. r \<in> set (rows T1) \<Longrightarrow> \<exists>a b c. r = [a, b, c]"
    using assms(1) by (auto elim: metric_row)
  show "?L \<subseteq> ?R"
  proof
    fix x assume "x \<in> ?L"
    then obtain l where l: "l \<in> set (rows T1)"
      and x: "x \<in> set (left_rows T1 T2 [''Country Code'', ''Year''] l)"
      by auto
    from shape1[OF l] obtain a b c where abc: "l = [a, b, c]" by blast
    from x have "x \<in> {[a, b, c, d] | d. [a, b, d] \<in> set (rows T2)}
      \<union> (if [a, b] \<in> frame_keys T2 then {} else {[a, b, c, JFloat NaN]})"
      unfolding abc set_left_rows[OF assms] .
    then consider d where "x = [a, b, c, d]" "[a, b, d] \<in> set (rows T2)"
      | "x = [a, b, c, JFloat NaN]" "[a, b] \<notin> frame_keys T2"
      by (auto split: if_splits)
    then show "x \<in> ?R"
    proof cases
      case 1
      with l abc show ?thesis by blast
    next
      case 2
      with l abc show ?thesis by blast
    qed
  qed
next
  show "?R \<subseteq> ?L"
  proof
    fix x assume "x \<in> ?R"
    then consider a b c d where "x = [a, b, c, d]" "[a, b, c] \<in> set (rows T1)" "[a, b, d] \<in> set (rows T2)"
      | a b c where "x = [a, b, c, JFloat NaN]" "[a, b, c] \<in> set (rows T1)" "[a, b] \<notin> frame_keys T2"
      by blast
    then show "x \<in> ?L"
    proof cases
      case 1
      then have "x \<in> set (left_rows T1 T2 [''Country Code'', ''Year''] [a, b, c])"
        unfolding set_left_rows[OF assms] by blast
      with 1(2) show ?thesis by auto
    next
      case 2
      then have "x \<in> set (left_rows T1 T2 [''Country Code'', ''Year''] [a, b, c])"
        unfolding set_left_rows[OF assms] by simp
      with 2(2) show ?thesis by auto
    qed
  qed
qed

lemma set_right_part:
  assumes "metric_table T1" "metric_table T2"
  shows "set (map (right_only T1 T2 [''Country Code'', ''Year''])
                (filter (\<lambda>r. key_of (columns T2) [''Country Code'', ''Year''] r \<notin> frame_keys T1)
                   (rows T2))) =
       {[a, b, JFloat NaN, d] | a b d. [a, b, d] \<in> set (rows T2) \<and> [a, b] \<notin> frame_keys T1}"
    (is "?L = ?R")
proof
  have c2: "columns T2 = [''Country Code'', ''Year'', ''Value'']"
    using assms by (simp add: metric_table_def)
  have shape2: "\<And>r. r \<in> set (rows T2) \<Longrightarrow> \<exists>a b c. r = [a, b, c]"
    using assms(2) by (auto elim: metric_row)
  show "?L \<subseteq> ?R"
  proof
    fix x assume "x \<in> ?L"
    then obtain r where r: "r \<in> set (rows T2)"
      and k: "key_of (columns T2) [''Country Code'', ''Year''] r \<notin> frame_keys T1"
      and x: "x = right_only T1 T2 [''Country Code'', ''Year''] r"
      by auto
    from shape2[OF r] obtain a b d where abd: "r = [a, b, d]" by blast
    have "x = [a, b, JFloat NaN, d]"
      unfolding x abd by (rule set_right_only[OF assms])
    moreover have "[a, b] \<notin> frame_keys T1" using k unfolding abd c2 by simp
    ultimately show "x \<in> ?R" using r abd by blast
  qed
next
  have c2: "columns T2 = [''Country Code'', ''Year'', ''Value'']"
    using assms by (simp add: metric_table_def)
  show "?R \<subseteq> ?L"
  proof
    fix x assume "x \<in> ?R"
    then obtain a b d where x: "x = [a, b, JFloat NaN, d]" and r: "[a, b, d] \<in> set (rows T2)"
      and k: "[a, b] \<notin> frame_keys T1"
      by blast
    have "key_of (columns T2) [''Country Code'', ''Year''] [a, b, d] \<notin> frame_keys T1"
      using k by (simp add: c2)
    with r have "[a, b, d] \<in> set (filter (\<lambda>r. key_of (columns T2) [''Country Code'', ''Year''] r \<notin> frame_keys T1)
                   (rows T2))"
      by simp
    moreover have "x = right_only T1 T2 [''Country Code'', ''Year''] [a, b, d]"
      unfolding x by (rule set_right_only[OF assms, symmetric])
    ultimately show "x \<in> ?L"
      unfolding set_map by (rule rev_image_eqI)
  qed
qed

lemma merged_rows:
  assumes "metric_table T1" "metric_table T2" "merge_frames T1 T2 = Inr M"
  shows "set (rows M) = merged_row_set T1 T2"
proof -
  from assms(3) have "rows M = concat (map (left_rows T1 T2 [''Country Code'', ''Year'']) (rows T1))
                  @ map (right_only T1 T2 [''Country Code'', ''Year''])
                      (filter (\<lambda>r. key_of (columns T2) [''Country Code'', ''Year''] r \<notin> frame_keys T1)
                         (rows T2))"
    unfolding merge_frames_eq[OF assms(1,2)] by auto
  then show ?thesis
    unfolding merged_row_set_def
    by (simp only: set_append set_left_part[OF assms(1,2)] set_right_part[OF assms(1,2)])
qed

lemma merged_rows_cases:
  assumes "metric_table T1" "metric_table T2" "merge_frames T1 T2 = Inr M" "r \<in> set (rows M)"
  obtains a b c d where "r = [a, b, c, d]" "[a, b, c] \<in> set (rows T1)" "[a, b, d] \<in> set (rows T2)"
  | a b c where "r = [a, b, c, JFloat NaN]" "[a, b, c] \<in> set (rows T1)" "[a, b] \<notin> frame_keys T2"
  | a b d where "r = [a, b, JFloat NaN, d]" "[a, b, d] \<in> set (rows T2)" "[a, b] \<notin> frame_keys T1"
proof -
  from assms(4) have "r \<in> merged_row_set T1 T2"
    unfolding merged_rows[OF assms(1-3)] .
  then consider
      "r \<in> {[a, b, c, d] | a b c d. [a, b, c] \<in> set (rows T1) \<and> [a, b, d] \<in> set (rows T2)}"
    | "r \<in> {[a, b, c, JFloat NaN] | a b c. [a, b, c] \<in> set (rows T1) \<and> [a, b] \<notin> frame_keys T2}"
    | "r \<in> {[a, b, JFloat NaN, d] | a b d. [a, b, d] \<in> set (rows T2) \<and> [a, b] \<notin> frame_keys T1}"
    unfolding merged_row_set_def by blast
  then show thesis
  proof cases
    case 1
    then obtain a b c d where "r = [a, b, c, d]" "[a, b, c] \<in> set (rows T1)" "[a, b, d] \<in> set (rows T2)"
      by blast
    then show thesis by (rule that(1))
  next
    case 2
    then obtain a b c where "r = [a, b, c, JFloat NaN]" "[a, b, c] \<in> set (rows T1)" "[a, b] \<notin> frame_keys T2"
      by blast
    then show thesis by (rule that(2))
  next
    case 3
    then obtain a b d where "r = [a, b, JFloat NaN, d]" "[a, b, d] \<in> set (rows T2)" "[a, b] \<notin> frame_keys T1"
      by blast
    then show thesis by (rule that(3))
  qed
qed


lemma key_merged [simp]:
  "key_of [''Country Code'', ''Year'', ''Value_Population'', ''Value_Net Migration'']
      [''Country Code'', ''Year''] [a, b, c, d] = [a, b]"
  by (simp add: key_of_def)

lemma merged_key_in:
  assumes "metric_table T1" "metric_table T2" "merge_frames T1 T2 = Inr M"
    and "[a, b, c, d] \<in> set (rows M)"
  shows "[a, b] \<in> frame_keys M"
proof -
  have "key_of (columns M) [''Country Code'', ''Year''] [a, b, c, d] = [a, b]"
    by (simp add: merged_columns[OF assms(1-3)])
  then have "[a, b] \<in> key_of (columns M) [''Country Code'', ''Year''] ` set (rows M)"
    using assms(4) by (rule image_eqI[OF sym])
  then show ?thesis by (simp add: frame_keys_def)
qed

lemma frame_keys_merged:
  assumes "metric_table T1" "metric_table T2" "merge_frames T1 T2 = Inr M"
  shows "frame_keys M = frame_keys T1 \<union> frame_keys T2"
proof
  note cols = merged_columns[OF assms]
  note k1 = frame_keys_metric[OF assms(1)]
  note k2 = frame_keys_metric[OF assms(2)]
  show "frame_keys M \<subseteq> frame_keys T1 \<union> frame_keys T2"
  proof
    fix k assume "k \<in> frame_keys M"
    then obtain r where r: "r \<in> set (rows M)"
      and k: "k = key_of (columns M) [''Country Code'', ''Year''] r"
      unfolding frame_keys_def by auto
    from assms r show "k \<in> frame_keys T1 \<union> frame_keys T2"
    proof (cases rule: merged_rows_cases)
      case (1 a b c d)
      have "k = [a, b]" unfolding k 1(1) cols by simp
      with 1(2) show ?thesis unfolding k1 by blast
    next
      case (2 a b c)
      have "k = [a, b]" unfolding k 2(1) cols by simp
      with 2(2) show ?thesis unfolding k1 by blast
    next
      case (3 a b d)
      have "k = [a, b]" unfolding k 3(1) cols by simp
      with 3(2) show ?thesis unfolding k2 by blast
    qed
  qed
next
  note k1 = frame_keys_metric[OF assms(1)]
  note k2 = frame_keys_metric[OF assms(2)]
  note rws = merged_rows[OF assms]
  show "frame_keys T1 \<union> frame_keys T2 \<subseteq> frame_keys M"
  proof
    fix k assume "k \<in> frame_keys T1 \<union> frame_keys T2"
    then consider "k \<in> frame_keys T1" "k \<in> frame_keys T2"
      | "k \<in> frame_keys T1" "k \<notin> frame_keys T2"
      | "k \<notin> frame_keys T1" "k \<in> frame_keys T2" by blast
    then show "k \<in> frame_keys M"
    proof cases
      case 1
      from 1(1) obtain a b c where k: "k = [a, b]" and l: "[a, b, c] \<in> set (rows T1)"
        unfolding k1 by blast
      from 1(2) obtain d where "[a, b, d] \<in> set (rows T2)" unfolding k2 k by blast
      with l have "[a, b, c, d] \<in> set (rows M)" unfolding rws merged_row_set_def by blast
      then show ?thesis unfolding k by (rule merged_key_in[OF assms])
    next
      case 2
      from 2(1) obtain a b c where k: "k = [a, b]" and l: "[a, b, c] \<in> set (rows T1)"
        unfolding k1 by blast
      from 2(2) l have "[a, b, c, JFloat NaN] \<in> set (rows M)"
        unfolding rws merged_row_set_def k by blast
      then show ?thesis unfolding k by (rule merged_key_in[OF assms])
    next
      case 3
      from 3(2) obtain a b d where k: "k = [a, b]" and l: "[a, b, d] \<in> set (rows T2)"
        unfolding k2 by blast
      from 3(1) l have "[a, b, JFloat NaN, d] \<in> set (rows M)"
        unfolding rws merged_row_set_def k by blast
      then show ?thesis unfolding k by (rule merged_key_in[OF assms])
    qed
  qed
qed


lemma merged_null_right:
  assumes "metric_table T1" "metric_table T2" "merge_frames T1 T2 = Inr M" "r \<in> set (rows M)"
    and nk: "key_of (columns M) [''Country Code'', ''Year''] r \<notin> frame_keys T2"
  shows "cell M ''Value_Net Migration'' r = JFloat NaN"
proof -
  note cols = merged_columns[OF assms(1-3)]
  note k2 = frame_keys_metric[OF assms(2)]
  from assms(1-4) show ?thesis
  proof (cases rule: merged_rows_cases)
    case (1 a b c d)
    from 1(3) have "[a, b] \<in> frame_keys T2" unfolding k2 by blast
    moreover from nk have "[a, b] \<notin> frame_keys T2" unfolding 1(1) cols by simp
    ultimately show ?thesis by contradiction
  next
    case (2 a b c)
    show ?thesis unfolding 2(1) cell_def cols by simp
  next
    case (3 a b d)
    from 3(2) have "[a, b] \<in> frame_keys T2" unfolding k2 by blast
    moreover from nk have "[a, b] \<notin> frame_keys T2" unfolding 3(1) cols by simp
    ultimately show ?thesis by contradiction
  qed
qed

lemma merged_null_left:
  assumes "metric_table T1" "metric_table T2" "merge_frames T1 T2 = Inr M" "r \<in> set (rows M)"
    and nk: "key_of (columns M) [''Country Code'', ''Year''] r \<notin> frame_keys T1"
  shows "cell M ''Value_Population'' r = JFloat NaN"
proof -
  note cols = merged_columns[OF assms(1-3)]
  note k1 = frame_keys_metric[OF assms(1)]
  from assms(1-4) show ?thesis
  proof (cases rule: merged_rows_cases)
    case (1 a b c d)
    from 1(2) have "[a, b] \<in> frame_keys T1" unfolding k1 by blast
    moreover from nk have "[a, b] \<notin> frame_keys T1" unfolding 1(1) cols by simp
    ultimately show ?thesis by contradiction
  next
    case (2 a b c)
    from 2(2) have "[a, b] \<in> frame_keys T1" unfolding k1 by blast
    moreover from nk have "[a, b] \<notin> frame_keys T1" unfolding 2(1) cols by simp
    ultimately show ?thesis by contradiction
  next
    case (3 a b d)
    show ?thesis unfolding 3(1) cell_def cols by simp
  qed
qed

text \<open>
  Claim C3. For all metric tables \<open>T1\<close> and \<open>T2\<close> the merge returns a frame whose set of
  \<open>(Country Code, Year)\<close> keys is the union of the key sets of \<open>T1\<close> and \<open>T2\<close>; in a
  merged row whose key is in only one of the two tables, the value of the other table's
  metric is the missing value \<open>NaN\<close>, not zero.
\<close>

theorem merge_completeness:
  assumes "metric_table T1" and "metric_table T2"
  shows "\<exists>M. merge_frames T1 T2 = Inr M
     \<and> frame_keys M = frame_keys T1 \<union> frame_keys T2
     \<and> (\<forall>r \<in> set (rows M). key_of (columns M) [''Country Code'', ''Year''] r \<notin> frame_keys T2
            \<longrightarrow> cell M ''Value_Net Migration'' r = JFloat NaN)
     \<and> (\<forall>r \<in> set (rows M). key_of (columns M) [''Country Code'', ''Year''] r \<notin> frame_keys T1
            \<longrightarrow> cell M ''Value_Population'' r = JFloat NaN)"
proof -
  from merge_frames_eq[OF assms] obtain M where m: "merge_frames T1 T2 = Inr M" by blast
  show ?thesis
  proof (intro exI conjI ballI impI)
    show "merge_frames T1 T2 = Inr M" by (rule m)
    show "frame_keys M = frame_keys T1 \<union> frame_keys T2"
      by (rule frame_keys_merged[OF assms m])
  next
    fix r assume "r \<in> set (rows M)"
      and "key_of (columns M) [''Country Code'', ''Year''] r \<notin> frame_keys T2"
    then show "cell M ''Value_Net Migration'' r = JFloat NaN"
      by (rule merged_null_right[OF assms m])
  next
    fix r assume "r \<in> set (rows M)"
      and "key_of (columns M) [''Country Code'', ''Year''] r \<notin> frame_keys T1"
    then show "cell M ''Value_Population'' r = JFloat NaN"
      by (rule merged_null_left[OF assms m])
  qed
qed


lemma scenario_b_tables:
  "metric_table scenario_b_population" "metric_table scenario_b_migration"
  by (simp_all add: metric_table_def scenario_b_population_def scenario_b_migration_def)

lemma scenario_b_merge:
  "merge_frames scenario_b_population scenario_b_migration = Inr scenario_b_merged"
  unfolding merge_frames_def pd_merge_outer_def scenario_b_population_def scenario_b_migration_def
      scenario_b_merged_def
  by (simp add: merge_columns_def left_rows_def key_of_def rest_of_def right_only_def)

theorem merge_completeness_witness:
  "metric_table scenario_b_population \<and> metric_table scenario_b_migration
   \<and> merge_frames scenario_b_population scenario_b_migration = Inr scenario_b_merged
   \<and> frame_keys scenario_b_merged = frame_keys scenario_b_population \<union> frame_keys scenario_b_migration
   \<and> cell scenario_b_merged ''Value_Net Migration''
        [JStr ''IND'', JInt 2020, JFloat (Fin 1396387127), JFloat NaN] = JFloat NaN"
proof -
  from merge_completeness[OF scenario_b_tables]
  have "frame_keys scenario_b_merged = frame_keys scenario_b_population \<union> frame_keys scenario_b_migration"
    unfolding scenario_b_merge by simp
  moreover have "cell scenario_b_merged ''Value_Net Migration''
        [JStr ''IND'', JInt 2020, JFloat (Fin 1396387127), JFloat NaN] = JFloat NaN"
    by (simp add: cell_def scenario_b_merged_def)
  ultimately show ?thesis
    using scenario_b_tables scenario_b_merge by simp
qed

lemma only_left_rows:
  assumes "metric_table T1" "metric_table T2" "merge_frames T1 T2 = Inr M"
    and "[a, b] \<notin> frame_keys T2"
  shows "{r \<in> set (rows M). key_of (columns M) [''Country Code'', ''Year''] r = [a, b]}
           = {[a, b, v, JFloat NaN] | v. [a, b, v] \<in> set (rows T1)}"
    (is "?L = ?R")
proof
  note cols = merged_columns[OF assms(1-3)]
  note k2 = frame_keys_metric[OF assms(2)]
  show "?L \<subseteq> ?R"
  proof
    fix r assume "r \<in> ?L"
    then have r: "r \<in> set (rows M)"
      and k: "key_of (columns M) [''Country Code'', ''Year''] r = [a, b]" by simp_all
    from assms(1-3) r show "r \<in> ?R"
    proof (cases rule: merged_rows_cases)
      case (1 a' b' c d)
      from k have "a' = a" "b' = b" unfolding 1(1) cols by simp_all
      with 1(3) have "[a, b] \<in> frame_keys T2" unfolding k2 by blast
      with assms(4) show ?thesis by contradiction
    next
      case (2 a' b' c)
      from k have "a' = a" "b' = b" unfolding 2(1) cols by simp_all
      with 2(1,2) show ?thesis by simp
    next
      case (3 a' b' d)
      from k have "a' = a" "b' = b" unfolding 3(1) cols by simp_all
      with 3(2) have "[a, b] \<in> frame_keys T2" unfolding k2 by blast
      with assms(4) show ?thesis by contradiction
    qed
  qed
next
  note cols = merged_columns[OF assms(1-3)]
  note rws = merged_rows[OF assms(1-3)]
  show "?R \<subseteq> ?L"
  proof
    fix r assume "r \<in> ?R"
    then obtain v where r: "r = [a, b, v, JFloat NaN]" and v: "[a, b, v] \<in> set (rows T1)" by blast
    from v assms(4) have "r \<in> set (rows M)" unfolding rws merged_row_set_def r by blast
    moreover have "key_of (columns M) [''Country Code'', ''Year''] r = [a, b]"
      unfolding r cols by simp
    ultimately show "r \<in> ?L" by simp
  qed
qed

lemma only_right_rows:
  assumes "metric_table T1" "metric_table T2" "merge_frames T1 T2 = Inr M"
    and "[a, b] \<notin> frame_keys T1"
  shows "{r \<in> set (rows M). key_of (columns M) [''Country Code'', ''Year''] r = [a, b]}
           = {[a, b, JFloat NaN, v] | v. [a, b, v] \<in> set (rows T2)}"
    (is "?L = ?R")
proof
  note cols = merged_columns[OF assms(1-3)]
  note k1 = frame_keys_metric[OF assms(1)]
  show "?L \<subseteq> ?R"
  proof
    fix r assume "r \<in> ?L"
    then have r: "r \<in> set (rows M)"
      and k: "key_of (columns M) [''Country Code'', ''Year''] r = [a, b]" by simp_all
    from assms(1-3) r show "r \<in> ?R"
    proof (cases rule: merged_rows_cases)
      case (1 a' b' c d)
      from k have "a' = a" "b' = b" unfolding 1(1) cols by simp_all
      with 1(2) have "[a, b] \<in> frame_keys T1" unfolding k1 by blast
      with assms(4) show ?thesis by contradiction
    next
      case (2 a' b' c)
      from k have "a' = a" "b' = b" unfolding 2(1) cols by simp_all
      with 2(2) have "[a, b] \<in> frame_keys T1" unfolding k1 by blast
      with assms(4) show ?thesis by contradiction
    next
      case (3 a' b' d)
      from k have "a' = a" "b' = b" unfolding 3(1) cols by simp_all
      with 3(1,2) show ?thesis by simp
    qed
  qed
next
  note cols = merged_columns[OF assms(1-3)]
  note rws = merged_rows[OF assms(1-3)]
  show "?R \<subseteq> ?L"
  proof
    fix r assume "r \<in> ?R"
    then obtain v where r: "r = [a, b, JFloat NaN, v]" and v: "[a, b, v] \<in> set (rows T2)" by blast
    from v assms(4) have "r \<in> set (rows M)" unfolding rws merged_row_set_def r by blast
    moreover have "key_of (columns M) [''Country Code'', ''Year''] r = [a, b]"
      unfolding r cols by simp
    ultimately show "r \<in> ?L" by simp
  qed
qed

text \<open>
  Claim C4. For every key \<open>(a, b)\<close> present in exactly one of the two metric tables, the
  merged rows with that key are exactly the rows of that table with that key, each carrying
  its source value in its own metric's column and \<open>NaN\<close> in the other metric's column.
\<close>

theorem merge_value_fidelity:
  assumes "metric_table T1" and "metric_table T2" and "merge_frames T1 T2 = Inr M"
  shows "columns M = [''Country Code'', ''Year'', ''Value_Population'', ''Value_Net Migration'']
     \<and> ([a, b] \<in> frame_keys T1 \<and> [a, b] \<notin> frame_keys T2 \<longrightarrow>
          {r \<in> set (rows M). key_of (columns M) [''Country Code'', ''Year''] r = [a, b]}
            = {[a, b, v, JFloat NaN] | v. [a, b, v] \<in> set (rows T1)})
     \<and> ([a, b] \<in> frame_keys T2 \<and> [a, b] \<notin> frame_keys T1 \<longrightarrow>
          {r \<in> set (rows M). key_of (columns M) [''Country Code'', ''Year''] r = [a, b]}
            = {[a, b, JFloat NaN, v] | v. [a, b, v] \<in> set (rows T2)})"
  using merged_columns[OF assms] only_left_rows[OF assms] only_right_rows[OF assms]
  by blast

theorem merge_value_fidelity_witness:
  "metric_table scenario_b_population \<and> metric_table scenario_b_migration
   \<and> merge_frames scenario_b_population scenario_b_migration = Inr scenario_b_merged
   \<and> [JStr ''IND'', JInt 2020] \<in> frame_keys scenario_b_population
   \<and> [JStr ''IND'', JInt 2020] \<notin> frame_keys scenario_b_migration
   \<and> {r \<in> set (rows scenario_b_merged).
         key_of (columns scenario_b_merged) [''Country Code'', ''Year''] r = [JStr ''IND'', JInt 2020]}
       = {[JStr ''IND'', JInt 2020, JFloat (Fin 1396387127), JFloat NaN]}"
proof -
  have in1: "[JStr ''IND'', JInt 2020] \<in> frame_keys scenario_b_population"
    by (simp add: frame_keys_def scenario_b_population_def key_of_def)
  have out2: "[JStr ''IND'', JInt 2020] \<notin> frame_keys scenario_b_migration"
    by (simp add: frame_keys_def scenario_b_migration_def key_of_def)
  have src: "{[JStr ''IND'', JInt 2020, v, JFloat NaN] | v.
               [JStr ''IND'', JInt 2020, v] \<in> set (rows scenario_b_population)}
             = {[JStr ''IND'', JInt 2020, JFloat (Fin 1396387127), JFloat NaN]}"
    by (auto simp: scenario_b_population_def)
  from merge_value_fidelity[OF scenario_b_tables scenario_b_merge, of "JStr ''IND''" "JInt 2020"]
    in1 out2
  have "{r \<in> set (rows scenario_b_merged).
         key_of (columns scenario_b_merged) [''Country Code'', ''Year''] r = [JStr ''IND'', JInt 2020]}
       = {[JStr ''IND'', JInt 2020, v, JFloat NaN] | v.
               [JStr ''IND'', JInt 2020, v] \<in> set (rows scenario_b_population)}"
    by blast
  with src in1 out2 scenario_b_tables scenario_b_merge show ?thesis by simp
qed

section \<open>Properties of the start-up\<close>

lemma merge_frames_no_columns:
  "merge_frames T \<lparr>columns = [], rows = rs\<rparr> = Inl (KeyError ''Country Code'')"
  "merge_frames \<lparr>columns = [], rows = rs\<rparr> T = Inl (KeyError ''Country Code'')"
  by (simp_all add: merge_frames_def pd_merge_outer_def)

lemma migration_request:
  "spec_request country_codes ''SM.POP.NETM'' start_year end_year =
     \<lparr>verb = GET,
      url = ''http://api.worldbank.org/v2/country/AFG;IND;PAK;BGD;LKA/indicator/SM.POP.NETM'',
      params = [(''format'', PStr ''json''), (''date'', PStr ''1960:2023''),
                (''per_page'', PInt 5000)]\<rparr>"
  by (simp add: spec_request_def base_url_def country_codes_def start_year_def end_year_def
      str_int_years)

lemma scenario_c_population_fetch:
  "fst (fetch_data scenario_c_service country_codes ''SP.POP.TOTL'' start_year end_year w)
     = Inr (JArr [JObj record_afg_2020, JObj record_ind_2020])"
  by (simp add: fetch_data_sends startup_request scenario_c_service_def response_json_def)

lemma scenario_c_migration_fetch:
  "fst (fetch_data scenario_c_service country_codes ''SM.POP.NETM'' start_year end_year w)
     = Inr (JArr [])"
  by (simp add: fetch_data_sends migration_request scenario_c_service_def)

lemma scenario_c_population:
  "process_data decimal_builtins [record_afg_2020, record_ind_2020] = Inr scenario_b_population"
  by (simp add: process_data_def pd_DataFrame_def first_seen_def getitem_cols_def set_columns_def
      dropna_def astype_def isna_def decimal_builtins_def scenario_b_population_def
      to_int64_def to_float64_exact record_afg_2020_def record_ind_2020_def Let_def)

lemma scenario_c_all_data:
  "fst (load_all_data decimal_builtins scenario_c_service indicators [] w) =
     Inr [(''Population'', scenario_b_population), (''Net Migration'', pd_DataFrame_empty)]"
proof -
  obtain w1 where f1: "fetch_data scenario_c_service country_codes ''SP.POP.TOTL'' start_year end_year w
      = (Inr (JArr [JObj record_afg_2020, JObj record_ind_2020]), w1)"
    using scenario_c_population_fetch[of w] by (metis prod.collapse)
  obtain w2 where f2: "fetch_data scenario_c_service country_codes ''SM.POP.NETM'' start_year end_year w1
      = (Inr (JArr []), w2)"
    using scenario_c_migration_fetch[of w1] by (metis prod.collapse)
  have e: "process_data decimal_builtins [] = Inr pd_DataFrame_empty"
    by (simp add: process_data_def)
  show ?thesis
    by (simp add: indicators_def f1 f2 scenario_c_population e)
qed

text \<open>
  Claim C2. With one of the two tables empty, as \<open>process_data\<close> makes it of an empty
  series, the merge should still succeed and return the rows of the other table with nulls
  in the empty metric's column. The code does not do that: the empty frame has no columns,
  so the key \<open>Country Code\<close> is missing and \<open>pd.merge\<close> raises \<open>KeyError\<close>. Here the
  service fails on the migration request only, and the start-up ends in that error.
\<close>

theorem merge_with_empty_series_fails:
  "fst (merged_df decimal_builtins scenario_c_service empty_world) = Inl (KeyError ''Country Code'')"
proof -
  obtain w1 where "load_all_data decimal_builtins scenario_c_service indicators [] empty_world =
     (Inr [(''Population'', scenario_b_population), (''Net Migration'', pd_DataFrame_empty)], w1)"
    using scenario_c_all_data[of empty_world] by (metis prod.collapse)
  then show ?thesis
    by (simp add: merged_df_def get_frame_def pd_DataFrame_empty_def merge_frames_no_columns)
qed

text \<open>
  The sibling path: when the empty table has the three columns (all its records were
  dropped), the merge returns the rows of the other table with \<open>NaN\<close> in the empty
  metric's column.
\<close>

lemma merge_with_all_dropped:
  "merge_frames scenario_b_population \<lparr>columns = [''Country Code'', ''Year'', ''Value''], rows = []\<rparr>
     = Inr \<lparr>columns = [''Country Code'', ''Year'', ''Value_Population'', ''Value_Net Migration''],
            rows = [[JStr ''AFG'', JInt 2020, JFloat (Fin 38972230), JFloat NaN],
                    [JStr ''IND'', JInt 2020, JFloat (Fin 1396387127), JFloat NaN]]\<rparr>"
  unfolding merge_frames_def pd_merge_outer_def scenario_b_population_def
  by (simp add: merge_columns_def left_rows_def key_of_def rest_of_def right_only_def)

section \<open>Properties of the filter\<close>

lemma map2_same:
  "map2 f (map g xs) (map h xs) = map (\<lambda>x. f (g x) (h x)) xs"
  by (induction xs) simp_all

lemma mask_filter:
  "map fst (filter snd (zip xs (map p xs))) = filter p xs"
  by (induction xs) simp_all

lemma map_result_bool:
  "map_result f xs = Inr bs \<longleftrightarrow>
     (\<forall>x \<in> set xs. \<exists>b. f x = Inr b) \<and> bs = map (\<lambda>x. f x = Inr True) xs"
proof (induction xs arbitrary: bs)
  case Nil
  show ?case by auto
next
  case (Cons x xs)
  show ?case
  proof (cases "f x")
    case (Inl e)
    then show ?thesis by auto
  next
    case fx: (Inr b)
    show ?thesis
    proof (cases "map_result f xs")
      case (Inl e)
      with Cons[of "map (\<lambda>x. f x = Inr True) xs"] fx show ?thesis by auto
    next
      case (Inr cs)
      with Cons[of cs] fx show ?thesis by auto
    qed
  qed
qed

lemma getitem_col_Inr:
  "getitem_col d c = Inr xs \<longleftrightarrow> c \<in> set (columns d) \<and> xs = map (cell d c) (rows d)"
  by (auto simp: getitem_col_def cell_def)

lemma isin_cells:
  "isin (map (cell d c) rs) cs
     = map (\<lambda>r. case cell d c r of JStr s \<Rightarrow> s \<in> set cs | _ \<Rightarrow> False) rs"
  by (simp add: isin_def)


lemma compare_all:
  assumes "comparable d lo hi"
  shows "map_result (\<lambda>y. py_ge y lo) (map (cell d ''Year'') (rows d))
           = Inr (map (\<lambda>r. py_ge (cell d ''Year'' r) lo = Inr True) (rows d))"
    and "map_result (\<lambda>y. py_le y hi) (map (cell d ''Year'') (rows d))
           = Inr (map (\<lambda>r. py_le (cell d ''Year'' r) hi = Inr True) (rows d))"
  using assms unfolding map_result_bool comparable_def list_all_iff by (simp_all add: comp_def)

lemma masked_rows:
  "getitem_mask d
     (map2 (\<and>) (map2 (\<and>) (isin (map (cell d ''Country Code'') (rows d)) cs)
                          (map (\<lambda>r. py_ge (cell d ''Year'' r) lo = Inr True) (rows d)))
                (map (\<lambda>r. py_le (cell d ''Year'' r) hi = Inr True) (rows d)))
   = d\<lparr>rows := filter (kept d cs lo hi) (rows d)\<rparr>"
proof -
  have "(\<lambda>r. ((case cell d ''Country Code'' r of JStr s \<Rightarrow> s \<in> set cs | _ \<Rightarrow> False)
               \<and> py_ge (cell d ''Year'' r) lo = Inr True)
              \<and> py_le (cell d ''Year'' r) hi = Inr True) = kept d cs lo hi"
    by (rule ext) (simp add: kept_def)
  then show ?thesis
    by (simp add: getitem_mask_def isin_cells map2_same mask_filter)
qed

lemma update_dashboard_returns:
  assumes "''Country Code'' \<in> set (columns (df st))" and "''Year'' \<in> set (columns (df st))"
    and "py_index yr 0 = Inr lo" and "py_index yr 1 = Inr hi" and "comparable (df st) lo hi"
  shows "update_dashboard st cs yr
           = (Inr ((df st)\<lparr>rows := filter (kept (df st) cs lo hi) (rows (df st))\<rparr>), st)"
proof -
  have c: "getitem_col (df st) ''Country Code'' = Inr (map (cell (df st) ''Country Code'') (rows (df st)))"
    using assms(1) by (simp add: getitem_col_Inr)
  have y: "getitem_col (df st) ''Year'' = Inr (map (cell (df st) ''Year'') (rows (df st)))"
    using assms(2) by (simp add: getitem_col_Inr)
  show ?thesis
    using assms(4)
    by (simp add: update_dashboard_def c y assms(3) compare_all[OF assms(5)] masked_rows)
qed

lemma update_dashboard_Inr:
  assumes "fst (update_dashboard st cs yr) = Inr F"
  obtains lo hi where "''Country Code'' \<in> set (columns (df st))" "''Year'' \<in> set (columns (df st))"
    "py_index yr 0 = Inr lo" "py_index yr 1 = Inr hi" "comparable (df st) lo hi"
    "F = (df st)\<lparr>rows := filter (kept (df st) cs lo hi) (rows (df st))\<rparr>"
proof -
  from assms obtain codes years lo ge_lo hi le_hi where
    c: "getitem_col (df st) ''Country Code'' = Inr codes"
    and y: "getitem_col (df st) ''Year'' = Inr years"
    and lo: "py_index yr 0 = Inr lo"
    and ge: "map_result (\<lambda>y. py_ge y lo) years = Inr ge_lo"
    and hi: "py_index yr 1 = Inr hi"
    and le: "map_result (\<lambda>y. py_le y hi) years = Inr le_hi"
    by (auto simp: update_dashboard_def split: sum.splits)
  from c have cc: "''Country Code'' \<in> set (columns (df st))" by (simp add: getitem_col_Inr)
  from y have yc: "''Year'' \<in> set (columns (df st))"
    and years: "years = map (cell (df st) ''Year'') (rows (df st))"
    by (simp_all add: getitem_col_Inr)
  from ge le have cmp: "comparable (df st) lo hi"
    unfolding map_result_bool years comparable_def list_all_iff by simp
  from update_dashboard_returns[OF cc yc lo hi cmp, of cs] assms
  have "F = (df st)\<lparr>rows := filter (kept (df st) cs lo hi) (rows (df st))\<rparr>" by simp
  with cc yc lo hi cmp show thesis by (rule that)
qed


lemma merged_year:
  assumes "merged_table d" and "r \<in> set (rows d)"
  obtains y where "cell d ''Year'' r = JInt y"
proof -
  from assms have "is_int (r ! 1)" and "columns d =
      [''Country Code'', ''Year'', ''Value_Population'', ''Value_Net Migration'']"
    by (auto simp: merged_table_def list_all_iff)
  then have "is_int (cell d ''Year'' r)" by (simp add: cell_def)
  then obtain y where "cell d ''Year'' r = JInt y" by (cases "cell d ''Year'' r") auto
  then show thesis by (rule that)
qed

lemma merged_comparable:
  assumes "merged_table d"
  shows "comparable d lo hi"
proof -
  have "(\<exists>b. py_ge (cell d ''Year'' r) lo = Inr b) \<and> (\<exists>b. py_le (cell d ''Year'' r) hi = Inr b)"
    if "r \<in> set (rows d)" for r
  proof -
    from assms that obtain y where "cell d ''Year'' r = JInt y" by (rule merged_year)
    then show ?thesis by simp
  qed
  then show ?thesis unfolding comparable_def list_all_iff by blast
qed

lemma kept_merged:
  assumes "merged_table d" and "r \<in> set (rows d)"
  shows "kept d cs lo hi r \<longleftrightarrow>
     (\<exists>s y. cell d ''Country Code'' r = JStr s \<and> s \<in> set cs
            \<and> cell d ''Year'' r = JInt y \<and> lo \<le> y \<and> y \<le> hi)"
proof -
  from assms obtain y where y: "cell d ''Year'' r = JInt y" by (rule merged_year)
  show ?thesis
    unfolding kept_def y by (cases "cell d ''Country Code'' r") auto
qed

text \<open>
  Claim C10. On a merged table, with the year range \<open>[lo, hi]\<close>, the filter returns a frame
  with the same columns, and a row is in it if and only if it is a row of the table whose
  country code is one of the selected codes and whose year \<open>y\<close> satisfies
  \<open>lo \<le> y\<close> and \<open>y \<le> hi\<close>: both bounds are inclusive.
\<close>

theorem filter_inclusive:
  assumes "merged_table (df st)"
  shows "\<exists>F. fst (update_dashboard st cs [lo, hi]) = Inr F
     \<and> columns F = columns (df st)
     \<and> (\<forall>r. r \<in> set (rows F) \<longleftrightarrow>
            r \<in> set (rows (df st))
            \<and> (\<exists>s y. cell (df st) ''Country Code'' r = JStr s \<and> s \<in> set cs
                     \<and> cell (df st) ''Year'' r = JInt y \<and> lo \<le> y \<and> y \<le> hi))"
proof -
  from assms have cols: "''Country Code'' \<in> set (columns (df st))" "''Year'' \<in> set (columns (df st))"
    by (simp_all add: merged_table_def)
  have ix: "py_index [lo, hi] 0 = Inr lo" "py_index [lo, hi] 1 = Inr hi"
    by (simp_all add: py_index_def)
  let ?F = "(df st)\<lparr>rows := filter (kept (df st) cs lo hi) (rows (df st))\<rparr>"
  have "fst (update_dashboard st cs [lo, hi]) = Inr ?F"
    by (simp add: update_dashboard_returns[OF cols ix merged_comparable[OF assms]])
  moreover have "columns ?F = columns (df st)" by simp
  moreover have "r \<in> set (rows ?F) \<longleftrightarrow>
            r \<in> set (rows (df st))
            \<and> (\<exists>s y. cell (df st) ''Country Code'' r = JStr s \<and> s \<in> set cs
                     \<and> cell (df st) ''Year'' r = JInt y \<and> lo \<le> y \<and> y \<le> hi)" for r
    using kept_merged[OF assms, of r cs lo hi] by auto
  ultimately show ?thesis by blast
qed

lemma sample_merged_table: "merged_table sample_merged"
  by (simp add: merged_table_def sample_merged_def)

lemma sample_filter:
  "update_dashboard \<lparr>df = sample_merged\<rparr> [''AFG''] [1960, 1990] =
     (Inr \<lparr>columns = [''Country Code'', ''Year'', ''Value_Population'', ''Value_Net Migration''],
           rows = [[JStr ''AFG'', JInt 1960, JFloat (Fin 8622466), JFloat (Fin 2606)],
                   [JStr ''AFG'', JInt 1990, JFloat (Fin 10694796), JFloat NaN]]\<rparr>,
      \<lparr>df = sample_merged\<rparr>)"
  by (simp add: update_dashboard_def getitem_col_def py_index_def isin_def getitem_mask_def
      sample_merged_def)

theorem filter_inclusive_witness:
  "merged_table sample_merged
   \<and> fst (update_dashboard \<lparr>df = sample_merged\<rparr> [''AFG''] [1960, 1990]) =
       Inr \<lparr>columns = [''Country Code'', ''Year'', ''Value_Population'', ''Value_Net Migration''],
            rows = [[JStr ''AFG'', JInt 1960, JFloat (Fin 8622466), JFloat (Fin 2606)],
                    [JStr ''AFG'', JInt 1990, JFloat (Fin 10694796), JFloat NaN]]\<rparr>
   \<and> [JStr ''AFG'', JInt 1960, JFloat (Fin 8622466), JFloat (Fin 2606)]
       \<in> set (rows \<lparr>columns = [''Country Code'', ''Year'', ''Value_Population'', ''Value_Net Migration''],
            rows = [[JStr ''AFG'', JInt 1960, JFloat (Fin 8622466), JFloat (Fin 2606)],
                    [JStr ''AFG'', JInt 1990, JFloat (Fin 10694796), JFloat NaN]]\<rparr>)"
proof -
  have m: "merged_table (df \<lparr>df = sample_merged\<rparr>)"
    by (simp add: sample_merged_table)
  from filter_inclusive[OF m, of "[''AFG'']" 1960 1990]
  obtain F where F: "fst (update_dashboard \<lparr>df = sample_merged\<rparr> [''AFG''] [1960, 1990]) = Inr F"
    and iff: "\<And>r. r \<in> set (rows F) \<longleftrightarrow>
            r \<in> set (rows (df \<lparr>df = sample_merged\<rparr>))
            \<and> (\<exists>s y. cell (df \<lparr>df = sample_merged\<rparr>) ''Country Code'' r = JStr s \<and> s \<in> set [''AFG'']
                     \<and> cell (df \<lparr>df = sample_merged\<rparr>) ''Year'' r = JInt y \<and> 1960 \<le> y \<and> y \<le> 1990)"
    by blast
  have "[JStr ''AFG'', JInt 1960, JFloat (Fin 8622466), JFloat (Fin 2606)] \<in> set (rows F)"
    unfolding iff by (simp add: sample_merged_def cell_def)
  with F sample_merged_table show ?thesis
    by (simp add: sample_filter)
qed


lemma kept_same_columns:
  "columns d' = columns d \<Longrightarrow> kept d' cs lo hi = kept d cs lo hi"
  by (rule ext) (simp add: kept_def cell_def)

lemma update_dashboard_state: "snd (update_dashboard st cs yr) = st"
  by (simp add: update_dashboard_def split: sum.splits)

lemma update_dashboard_again:
  assumes "fst (update_dashboard st cs yr) = Inr F"
  shows "fst (update_dashboard (st\<lparr>df := F\<rparr>) cs yr) = Inr F"
proof -
  from assms obtain lo hi where cols: "''Country Code'' \<in> set (columns (df st))"
      "''Year'' \<in> set (columns (df st))"
    and ix: "py_index yr 0 = Inr lo" "py_index yr 1 = Inr hi"
    and cmp: "comparable (df st) lo hi"
    and F: "F = (df st)\<lparr>rows := filter (kept (df st) cs lo hi) (rows (df st))\<rparr>"
    by (rule update_dashboard_Inr)
  have same: "columns F = columns (df st)" by (simp add: F)
  have rows_F: "rows F = filter (kept (df st) cs lo hi) (rows (df st))" by (simp add: F)
  have cols': "''Country Code'' \<in> set (columns (df (st\<lparr>df := F\<rparr>)))"
    "''Year'' \<in> set (columns (df (st\<lparr>df := F\<rparr>)))"
    using cols by (simp_all add: same)
  have cmp': "comparable (df (st\<lparr>df := F\<rparr>)) lo hi"
    using cmp unfolding comparable_def list_all_iff by (simp add: rows_F cell_def same)
  have "fst (update_dashboard (st\<lparr>df := F\<rparr>) cs yr)
          = Inr (F\<lparr>rows := filter (kept F cs lo hi) (rows F)\<rparr>)"
    using update_dashboard_returns[OF cols' ix cmp', of cs] by simp
  also have "kept F cs lo hi = kept (df st) cs lo hi"
    by (rule kept_same_columns[OF same])
  also have "filter (kept (df st) cs lo hi) (rows F) = rows F"
    by (simp add: rows_F)
  finally show ?thesis by simp
qed

text \<open>
  Claim C8. The callback leaves the application's state, and so the merged table, as it
  found it; called again with the same arguments it returns the same result; and applied
  to its own result it changes nothing.
\<close>

theorem filter_pure:
  "snd (update_dashboard st cs yr) = st
   \<and> update_dashboard (snd (update_dashboard st cs yr)) cs yr = update_dashboard st cs yr
   \<and> (\<forall>F. fst (update_dashboard st cs yr) = Inr F
          \<longrightarrow> fst (update_dashboard (st\<lparr>df := F\<rparr>) cs yr) = Inr F)"
  using update_dashboard_state[of st cs yr] update_dashboard_again[of st cs yr]
  by simp

theorem filter_pure_witness:
  "fst (update_dashboard \<lparr>df = sample_merged\<rparr> [''AFG''] [1960, 1990]) =
       Inr \<lparr>columns = [''Country Code'', ''Year'', ''Value_Population'', ''Value_Net Migration''],
            rows = [[JStr ''AFG'', JInt 1960, JFloat (Fin 8622466), JFloat (Fin 2606)],
                    [JStr ''AFG'', JInt 1990, JFloat (Fin 10694796), JFloat NaN]]\<rparr>
   \<and> snd (update_dashboard \<lparr>df = sample_merged\<rparr> [''AFG''] [1960, 1990]) = \<lparr>df = sample_merged\<rparr>
   \<and> fst (update_dashboard
        \<lparr>df = \<lparr>columns = [''Country Code'', ''Year'', ''Value_Population'', ''Value_Net Migration''],
            rows = [[JStr ''AFG'', JInt 1960, JFloat (Fin 8622466), JFloat (Fin 2606)],
                    [JStr ''AFG'', JInt 1990, JFloat (Fin 10694796), JFloat NaN]]\<rparr>\<rparr>
        [''AFG''] [1960, 1990]) =
       Inr \<lparr>columns = [''Country Code'', ''Year'', ''Value_Population'', ''Value_Net Migration''],
            rows = [[JStr ''AFG'', JInt 1960, JFloat (Fin 8622466), JFloat (Fin 2606)],
                    [JStr ''AFG'', JInt 1990, JFloat (Fin 10694796), JFloat NaN]]\<rparr>"
  using filter_pure[of "\<lparr>df = sample_merged\<rparr>" "[''AFG'']" "[1960, 1990]"]
  by (simp add: sample_filter)

lemma merge_frames_merged_table:
  assumes "metric_table T1" and "metric_table T2" and "merge_frames T1 T2 = Inr M"
  shows "merged_table M"
proof -
  have "length r = 4 \<and> is_int (r ! 1)" if "r \<in> set (rows M)" for r
    using assms that
  proof (cases rule: merged_rows_cases)
    case (1 a b c d)
    from assms(1) 1(2) obtain a' y c' where "[a, b, c] = [a', JInt y, c']" by (rule metric_row)
    with 1(1) show ?thesis by simp
  next
    case (2 a b c)
    from assms(1) 2(2) obtain a' y c' where "[a, b, c] = [a', JInt y, c']" by (rule metric_row)
    with 2(1) show ?thesis by simp
  next
    case (3 a b d)
    from assms(2) 3(2) obtain a' y c' where "[a, b, d] = [a', JInt y, c']" by (rule metric_row)
    with 3(1) show ?thesis by simp
  qed
  then have "list_all (\<lambda>r. length r = 4 \<and> is_int (r ! 1)) (rows M)"
    unfolding list_all_iff by blast
  with merged_columns[OF assms] show ?thesis by (simp add: merged_table_def)
qed

end
